theory Spec2Isabelle
  imports Complex_Main "HOL-Library.Sublist" "HOL-Library.AList"
begin

section \<open>JavaScript values\<close>

text \<open>
  The values that reach the program at run time are what \<^verbatim>\<open>JSON.parse\<close>,
  \<^verbatim>\<open>request.json()\<close> and \<^verbatim>\<open>response.json()\<close> hand out. The TypeScript types
  (\<^verbatim>\<open>as string\<close>, \<^verbatim>\<open>as Partial<ClarityEntry>\<close>) are erased, so a field declared
  \<^verbatim>\<open>string\<close> can hold any of them. A string is a list of code units; \<open>char\<close> covers
  the code units below 256. An object is its list of own properties, each name once.
  \<open>None\<close> of type \<open>json option\<close> is \<^verbatim>\<open>undefined\<close>.
\<close>

datatype json =
    JNull
  | JBool bool
  | JNum rat
  | JStr string
  | JArr "json list"
  | JObj "(string \<times> json) list"

text \<open>\<^verbatim>\<open>!v\<close> is \<open>\<not> truthy v\<close>.\<close>

fun truthy :: "json option \<Rightarrow> bool" where
  "truthy None = False"
| "truthy (Some JNull) = False"
| "truthy (Some (JBool b)) = b"
| "truthy (Some (JNum n)) = (n \<noteq> 0)"
| "truthy (Some (JStr s)) = (s \<noteq> [])"
| "truthy (Some (JArr xs)) = True"
| "truthy (Some (JObj kvs)) = True"

text \<open>\<^verbatim>\<open>a ?? b\<close>: \<open>b\<close> only when \<open>a\<close> is \<^verbatim>\<open>null\<close> or \<^verbatim>\<open>undefined\<close>.\<close>

fun nullish :: "json option \<Rightarrow> json \<Rightarrow> json" where
  "nullish None b = b"
| "nullish (Some JNull) b = b"
| "nullish (Some v) b = v"

text \<open>
  \<^verbatim>\<open>v.name\<close> on a value that is neither \<^verbatim>\<open>null\<close> nor \<^verbatim>\<open>undefined\<close>, for the names the
  program reads (candidates, content, parts, text, summary, feelings, actionPlan,
  reflectionPrompts, prompt): none of them is a member of the built-in prototypes, so
  only an object can have one.
\<close>

fun js_prop :: "json \<Rightarrow> string \<Rightarrow> json option" where
  "js_prop (JObj kvs) k = map_of kvs k"
| "js_prop v k = None"

text \<open>\<^verbatim>\<open>v[0]\<close>: the first element of an array, the first code unit of a string, the
  property named 0 of an object.\<close>

fun js_elem0 :: "json \<Rightarrow> json option" where
  "js_elem0 (JArr []) = None"
| "js_elem0 (JArr (x # xs)) = Some x"
| "js_elem0 (JStr []) = None"
| "js_elem0 (JStr (c # cs)) = Some (JStr [c])"
| "js_elem0 (JObj kvs) = map_of kvs ''0''"
| "js_elem0 v = None"

text \<open>Optional chaining, \<^verbatim>\<open>v?.name\<close> and \<^verbatim>\<open>v?.[0]\<close>.\<close>

fun opt_prop :: "json option \<Rightarrow> string \<Rightarrow> json option" where
  "opt_prop None k = None"
| "opt_prop (Some JNull) k = None"
| "opt_prop (Some v) k = js_prop v k"

fun opt_elem0 :: "json option \<Rightarrow> json option" where
  "opt_elem0 None = None"
| "opt_elem0 (Some JNull) = None"
| "opt_elem0 (Some v) = js_elem0 v"

text \<open>White space as \<^verbatim>\<open>\s\<close> and \<^verbatim>\<open>trim\<close> see it, among the code units below 256.\<close>

definition is_space :: "char \<Rightarrow> bool" where
  "is_space c = (of_char c \<in> {9, 10, 11, 12, 13, 32, 160 :: nat})"

definition trim :: "string \<Rightarrow> string" where
  "trim s = rev (dropWhile is_space (rev (dropWhile is_space s)))"

section \<open>Regular expressions\<close>

text \<open>
  The two patterns of \<^verbatim>\<open>coerceJson\<close> are kept as patterns and run by a backtracking
  matcher: \<open>matches r st\<close> lists the states in which \<open>r\<close> can leave the matcher, in the
  order in which backtracking tries them. A state is the captures closed so far and the
  input that is left. A greedy star tries one more round before it stops, a lazy star
  stops before it tries one more round; a round that consumes nothing is dropped, as in
  ECMAScript.
\<close>

datatype atom = AnyChar | Space | Lit char

fun in_atom :: "atom \<Rightarrow> char \<Rightarrow> bool" where
  "in_atom AnyChar c = True"
| "in_atom Space c = is_space c"
| "in_atom (Lit d) c = (c = d)"

datatype regex =
    Eps
  | Atom atom
  | Seq regex regex
  | Opt regex
  | Star regex
  | StarLazy regex
  | Group regex

type_synonym mstate = "string list \<times> string"

function (sequential) matches :: "regex \<Rightarrow> mstate \<Rightarrow> mstate list" where
  "matches Eps st = [st]"
| "matches (Atom a) (caps, []) = []"
| "matches (Atom a) (caps, c # cs) = (if in_atom a c then [(caps, cs)] else [])"
| "matches (Seq r1 r2) st = concat (map (matches r2) (matches r1 st))"
| "matches (Opt r) st = matches r st @ [st]"
| "matches (Star r) st =
     concat (map (\<lambda>st'. if length (snd st') < length (snd st)
                         then matches (Star r) st' else [])
                 (matches r st)) @ [st]"
| "matches (StarLazy r) st =
     st # concat (map (\<lambda>st'. if length (snd st') < length (snd st)
                              then matches (StarLazy r) st' else [])
                      (matches r st))"
| "matches (Group r) st =
     map (\<lambda>st'. (fst st' @ [take (length (snd st) - length (snd st')) (snd st)], snd st'))
         (matches r st)"
  by pat_completeness auto
termination
  by (relation "measures [\<lambda>(r, st). size r, \<lambda>(r, st). length (snd st)]") auto

fun lit :: "string \<Rightarrow> regex" where
  "lit [] = Eps"
| "lit (c # cs) = Seq (Atom (Lit c)) (lit cs)"

text \<open>The state that backtracking reaches first, if any.\<close>

fun first :: "'a list \<Rightarrow> 'a option" where
  "first [] = None"
| "first (x # xs) = Some x"

text \<open>One attempt at the start of \<open>s\<close>: the matched text and the captures of the first
  state reached.\<close>

definition exec :: "regex \<Rightarrow> string \<Rightarrow> (string \<times> string list) option" where
  "exec r s =
     map_option (\<lambda>st. (take (length s - length (snd st)) s, fst st))
       (first (matches r ([], s)))"

text \<open>\<^verbatim>\<open>content.match(r)\<close> for a pattern without the g flag: the attempt at the leftmost
  position that succeeds, the end of the input included; \<open>None\<close> is \<^verbatim>\<open>null\<close>.\<close>

fun match :: "regex \<Rightarrow> string \<Rightarrow> (string \<times> string list) option" where
  "match r [] = exec r []"
| "match r (c # cs) = (case exec r (c # cs) of Some m \<Rightarrow> Some m | None \<Rightarrow> match r cs)"

section \<open>The platform\<close>

text \<open>
  \<^verbatim>\<open>JSON.parse\<close> and \<^verbatim>\<open>Date.prototype.toISOString\<close> belong to the runtime, not to the
  repository; they are parameters of the model. \<open>JSON_parse p s = None\<close> says that
  parsing \<open>s\<close> throws.
\<close>

record platform =
  JSON_parse :: "string \<Rightarrow> json option"
  toISOString :: "nat \<Rightarrow> string"

datatype fetch_result = NetworkError | Responded nat string

record http_request =
  url :: string
  http_method :: string
  req_headers :: "(string \<times> string) list"
  req_body :: json
  cache :: "string option"

text \<open>
  What the program reads and changes outside itself: the environment variables, whether
  \<^verbatim>\<open>window\<close> is defined, the clock in milliseconds, the identifiers
  \<^verbatim>\<open>crypto.randomUUID\<close> will hand out and how many it has handed out, the network (what a
  request sent at a given time is answered with, and after how many milliseconds), and
  the requests sent so far.
\<close>

record world =
  GEMINI_API_KEY :: "string option"
  NEXT_PUBLIC_VERCEL_API_URL :: "string option"
  has_window :: bool
  clock :: nat
  uuid_source :: "nat \<Rightarrow> string"
  uuid_drawn :: nat
  network :: "nat \<Rightarrow> http_request \<Rightarrow> fetch_result \<times> nat"
  sent :: "http_request list"

definition randomUUID :: "world \<Rightarrow> string \<times> world" where
  "randomUUID w = (uuid_source w (uuid_drawn w), w\<lparr>uuid_drawn := Suc (uuid_drawn w)\<rparr>)"

definition fetch :: "world \<Rightarrow> http_request \<Rightarrow> fetch_result \<times> world" where
  "fetch w rq =
     (case network w (clock w) rq of
        (res, dt) \<Rightarrow> (res, w\<lparr>clock := clock w + dt, sent := sent w @ [rq]\<rparr>))"

definition response_ok :: "nat \<Rightarrow> bool" where
  "response_ok st = (200 \<le> st \<and> st \<le> 299)"

section \<open>lib/api.ts\<close>

record ClarityEntry =
  id' :: string
  prompt :: string
  summary :: json
  feelings :: json
  actionPlan :: json
  reflectionPrompts :: json
  createdAt :: string

definition GEMINI_MODEL :: string where
  "GEMINI_MODEL = ''gemini-2.5-flash-lite''"

definition fallback_summary :: json where
  "fallback_summary = JStr (''It sounds like you're carrying a lot right now. '' @
     ''The core issue is juggling expectations and feeling unsure how to prioritise yourself.'')"

definition fallback_feelings :: json where
  "fallback_feelings = JArr
     [JStr ''Overwhelm from competing demands'',
      JStr ''Guilt for not meeting everyone's expectations'',
      JStr ''Anxiety about making the wrong call'']"

definition fallback_actionPlan :: json where
  "fallback_actionPlan = JArr
     [JStr ''Name your top three priorities for this week and schedule them first.'',
      JStr ''Communicate one clear boundary to someone close to reduce pressure.'',
      JStr ''Break your problem into a next tiny step you can do today (15 minutes).'',
      JStr ''Plan a short decompression ritual (walk, breathwork, or journaling) daily.'']"

definition fallback_reflectionPrompts :: json where
  "fallback_reflectionPrompts = JArr
     [JStr ''What do I need most right now, and what's one way to honour it?'',
      JStr ''Where am I saying yes when I really mean no?'',
      JStr ''If I were advising a friend, what next step would I suggest?'']"

text \<open>The literal \<^verbatim>\<open>{ ...fallbackEntry, prompt, createdAt: now, id: crypto.randomUUID() }\<close>.\<close>

definition fallbackEntry :: "string \<Rightarrow> string \<Rightarrow> string \<Rightarrow> ClarityEntry" where
  "fallbackEntry p now u =
     \<lparr>id' = u, prompt = p, summary = fallback_summary, feelings = fallback_feelings,
      actionPlan = fallback_actionPlan, reflectionPrompts = fallback_reflectionPrompts,
      createdAt = now\<rparr>"

text \<open>\<^verbatim>\<open>/```(?:json)?\s*(\{[\s\S]*?\})\s*```/\<close> and \<^verbatim>\<open>/\{[\s\S]*\}/\<close>.\<close>

definition codeBlockRe :: regex where
  "codeBlockRe =
     Seq (lit ''```'') (Seq (Opt (lit ''json'')) (Seq (Star (Atom Space))
       (Seq (Group (Seq (Atom (Lit CHR ''{''))
                   (Seq (StarLazy (Atom AnyChar)) (Atom (Lit CHR ''}'')))))
         (Seq (Star (Atom Space)) (lit ''```'')))))"

definition jsonRe :: regex where
  "jsonRe = Seq (Atom (Lit CHR ''{'')) (Seq (Star (Atom AnyChar)) (Atom (Lit CHR ''}'')))"

text \<open>The second half of \<^verbatim>\<open>coerceJson\<close>: the object found directly in the text.\<close>

definition coerceDirect :: "platform \<Rightarrow> string \<Rightarrow> json option" where
  "coerceDirect pf content =
     (case match jsonRe content of
        None \<Rightarrow> None
      | Some (whole, caps) \<Rightarrow> JSON_parse pf whole)"

text \<open>
  \<^verbatim>\<open>coerceJson\<close>. \<open>None\<close> as the argument is \<^verbatim>\<open>undefined\<close>, \<open>None\<close> as the result
  is \<^verbatim>\<open>null\<close>. A match of the first pattern always carries its group;
  \<^verbatim>\<open>JSON.parse(undefined)\<close> throws, which the empty list of captures falls through on.
\<close>

definition coerceJson :: "platform \<Rightarrow> string option \<Rightarrow> json option" where
  "coerceJson pf content =
     (case content of
        None \<Rightarrow> None
      | Some c \<Rightarrow>
          if c = [] then None
          else (case match codeBlockRe c of
                  Some (whole, g # gs) \<Rightarrow>
                    (case JSON_parse pf g of
                       Some v \<Rightarrow> Some v
                     | None \<Rightarrow> coerceDirect pf c)
                | _ \<Rightarrow> coerceDirect pf c))"

definition instructions :: "string \<Rightarrow> string" where
  "instructions p = trim (''\<newline>'' @
     ''You are ClarityPath, an empathetic personal growth coach.\<newline>'' @
     ''Provide a concise JSON response with the following keys:\<newline>'' @
     ''- summary: short explanation of the core issue\<newline>'' @
     ''- feelings: array of 3-6 feelings the person might experience\<newline>'' @
     ''- actionPlan: array of 4-6 ordered steps that are realistic\<newline>'' @
     ''- reflectionPrompts: array of 3-4 short journal prompts\<newline>'' @
     ''\<newline>'' @
     ''Keep the tone warm, practical, and specific. User input: '' @ p @ ''\<newline>'')"

text \<open>The request to the upstream service; \<open>req_body\<close> is the value that
  \<^verbatim>\<open>JSON.stringify\<close> serialises.\<close>

definition geminiRequest :: "string \<Rightarrow> string \<Rightarrow> http_request" where
  "geminiRequest key p =
     \<lparr>url = ''https://generativelanguage.googleapis.com/v1beta/models/'' @ GEMINI_MODEL @
             '':generateContent?key='' @ key,
      http_method = ''POST'',
      req_headers = [(''Content-Type'', ''application/json'')],
      req_body = JObj
        [(''contents'', JArr [JObj
            [(''role'', JStr ''user''),
             (''parts'', JArr [JObj [(''text'', JStr (instructions p))]])]]),
         (''generationConfig'', JObj
            [(''temperature'', JNum (6 / 10)),
             (''topP'', JNum (8 / 10)),
             (''responseMimeType'', JStr ''application/json'')])],
      cache = Some ''no-store''\<rparr>"

text \<open>\<^verbatim>\<open>json?.candidates?.[0]?.content?.parts?.[0]?.text ?? ""\<close>.\<close>

definition completionText :: "json \<Rightarrow> json" where
  "completionText j =
     nullish
       (opt_prop (opt_elem0 (opt_prop (opt_prop (opt_elem0
          (opt_prop (Some j) ''candidates'')) ''content'') ''parts'')) ''text'')
       (JStr [])"

text \<open>What the \<^verbatim>\<open>try\<close> block of \<^verbatim>\<open>runClarityOnServer\<close> can throw.\<close>

datatype thrown =
    FetchRejected
  | RequestFailed nat string
  | BodyNotJson
  | NoTextContent
  | NotAFunction
  | NullDeref

text \<open>
  The \<^verbatim>\<open>try\<close> block from the answer of \<^verbatim>\<open>fetch\<close> to the value of \<^verbatim>\<open>parsed\<close>. A text
  that is truthy and no string has no \<^verbatim>\<open>match\<close> method, so \<^verbatim>\<open>coerceJson\<close> throws a
  TypeError on it.
\<close>

definition parseUpstream :: "platform \<Rightarrow> fetch_result \<Rightarrow> thrown + json option" where
  "parseUpstream pf res =
     (case res of
        NetworkError \<Rightarrow> Inl FetchRejected
      | Responded st body \<Rightarrow>
          if \<not> response_ok st then Inl (RequestFailed st body)
          else (case JSON_parse pf body of
                  None \<Rightarrow> Inl BodyNotJson
                | Some j \<Rightarrow>
                    if \<not> truthy (Some (completionText j)) then Inl NoTextContent
                    else (case completionText j of
                            JStr s \<Rightarrow> Inr (coerceJson pf (Some s))
                          | _ \<Rightarrow> Inl NotAFunction)))"

text \<open>The entry of the success path: each content field is
  \<^verbatim>\<open>parsed?.field ?? fallbackEntry.field\<close>.\<close>

definition mergedEntry :: "json option \<Rightarrow> string \<Rightarrow> string \<Rightarrow> string \<Rightarrow> ClarityEntry" where
  "mergedEntry parsed p now u =
     \<lparr>id' = u, prompt = p,
      summary = nullish (opt_prop parsed ''summary'') fallback_summary,
      feelings = nullish (opt_prop parsed ''feelings'') fallback_feelings,
      actionPlan = nullish (opt_prop parsed ''actionPlan'') fallback_actionPlan,
      reflectionPrompts =
        nullish (opt_prop parsed ''reflectionPrompts'') fallback_reflectionPrompts,
      createdAt = now\<rparr>"

definition runClarityOnServer :: "platform \<Rightarrow> world \<Rightarrow> string \<Rightarrow> ClarityEntry \<times> world" where
  "runClarityOnServer pf w p =
     (let now = toISOString pf (clock w) in
      case GEMINI_API_KEY w of
        None \<Rightarrow> (case randomUUID w of (u, w') \<Rightarrow> (fallbackEntry p now u, w'))
      | Some key \<Rightarrow>
          if key = [] then (case randomUUID w of (u, w') \<Rightarrow> (fallbackEntry p now u, w'))
          else (case fetch w (geminiRequest key p) of
                  (res, w1) \<Rightarrow>
                    (case parseUpstream pf res of
                       Inr parsed \<Rightarrow>
                         (case randomUUID w1 of (u, w2) \<Rightarrow> (mergedEntry parsed p now u, w2))
                     | Inl e \<Rightarrow>
                         (case randomUUID w1 of (u, w2) \<Rightarrow> (fallbackEntry p now u, w2)))))"

text \<open>The sentence \<^verbatim>\<open>generateReport\<close> puts in place of a missing summary.\<close>

definition cannedReport :: json where
  "cannedReport = JStr (''This is a lightweight summary you can share. Focus on one next action, '' @
     ''and check in with yourself tomorrow to review how it felt.'')"

definition apiUrl :: "world \<Rightarrow> string" where
  "apiUrl w =
     (case NEXT_PUBLIC_VERCEL_API_URL w of
        None \<Rightarrow> ''/api/diagnosis''
      | Some b \<Rightarrow> if b = [] then ''/api/diagnosis'' else b @ ''/api/diagnosis'')"

definition diagnosisRequest :: "string \<Rightarrow> string \<Rightarrow> http_request" where
  "diagnosisRequest u p =
     \<lparr>url = u, http_method = ''POST'',
      req_headers = [(''Content-Type'', ''application/json'')],
      req_body = JObj [(''prompt'', JStr p)],
      cache = None\<rparr>"

text \<open>Decimal numerals, the names of the properties that spreading an array or a
  string gives.\<close>

function dec :: "nat \<Rightarrow> string" where
  "dec n = (if n < 10 then [char_of (48 + n)] else dec (n div 10) @ [char_of (48 + n mod 10)])"
  by pat_completeness auto
termination
  by (relation "measure (\<lambda>n. n)") auto

text \<open>\<^verbatim>\<open>{ ...v }\<close>: the own enumerable properties of \<open>v\<close>.\<close>

fun spread :: "json \<Rightarrow> (string \<times> json) list" where
  "spread (JObj kvs) = kvs"
| "spread (JArr xs) = zip (map dec [0..<length xs]) xs"
| "spread (JStr s) = zip (map dec [0..<length s]) (map (\<lambda>c. JStr [c]) s)"
| "spread v = []"

text \<open>The properties of an entry, in the order of the literal of the success path.\<close>

definition entryProps :: "ClarityEntry \<Rightarrow> (string \<times> json) list" where
  "entryProps e =
     [(''id'', JStr (id' e)), (''prompt'', JStr (prompt e)), (''createdAt'', JStr (createdAt e)),
      (''summary'', summary e), (''feelings'', feelings e), (''actionPlan'', actionPlan e),
      (''reflectionPrompts'', reflectionPrompts e)]"

text \<open>
  \<^verbatim>\<open>generateReport\<close>. \<open>Inl\<close> is what the promise rejects with. In the browser the
  data is whatever the endpoint answered; reading \<^verbatim>\<open>data.summary\<close> of \<^verbatim>\<open>null\<close> throws.
\<close>

definition generateReport :: "platform \<Rightarrow> world \<Rightarrow> string \<Rightarrow> (thrown + json) \<times> world" where
  "generateReport pf w p =
     (if has_window w then
        (case fetch w (diagnosisRequest (apiUrl w) p) of
           (NetworkError, w1) \<Rightarrow> (Inl FetchRejected, w1)
         | (Responded st body, w1) \<Rightarrow>
             if \<not> response_ok st then (Inl (RequestFailed st body), w1)
             else (case JSON_parse pf body of
                     None \<Rightarrow> (Inl BodyNotJson, w1)
                   | Some JNull \<Rightarrow> (Inl NullDeref, w1)
                   | Some data \<Rightarrow>
                       (Inr (JObj (AList.update ''report''
                          (nullish (js_prop data ''summary'') cannedReport) (spread data))), w1)))
      else
        (case runClarityOnServer pf w p of
           (entry, w1) \<Rightarrow>
             (Inr (JObj (AList.update ''report''
                (nullish (Some (summary entry)) cannedReport) (entryProps entry))), w1)))"

section \<open>app/api/diagnosis/route.ts\<close>

text \<open>The request as the handlers read it: the origin header (\<open>None\<close> is \<^verbatim>\<open>null\<close>) and
  what \<^verbatim>\<open>request.json()\<close> gives (\<open>None\<close>: it rejects, the body is no JSON).\<close>

record NextRequest =
  origin :: "string option"
  json_body :: "json option"

datatype payload = NoBody | ErrorBody string | EntryBody ClarityEntry

record NextResponse =
  status :: nat
  payload :: payload
  headers :: "string \<rightharpoonup> string"

definition allowedOrigins :: "string list" where
  "allowedOrigins =
     [''http://localhost:3000'', ''http://localhost:5173'',
      ''https://peacepilot-ai.web.app'', ''https://peacepilot-ai.web.app/'']"

text \<open>\<^verbatim>\<open>new NextResponse(null, { status })\<close> and \<^verbatim>\<open>NextResponse.json(data, { status })\<close>.\<close>

definition emptyResponse :: "nat \<Rightarrow> NextResponse" where
  "emptyResponse st = \<lparr>status = st, payload = NoBody, headers = Map.empty\<rparr>"

definition jsonResponse :: "payload \<Rightarrow> nat \<Rightarrow> NextResponse" where
  "jsonResponse d st =
     \<lparr>status = st, payload = d, headers = [''content-type'' \<mapsto> ''application/json'']\<rparr>"

text \<open>\<^verbatim>\<open>allowedOrigins[0] || "*"\<close>.\<close>

definition defaultOrigin :: string where
  "defaultOrigin = (case allowedOrigins of [] \<Rightarrow> ''*'' | a # _ \<Rightarrow> if a = [] then ''*'' else a)"

definition setCorsHeaders :: "NextResponse \<Rightarrow> string option \<Rightarrow> NextResponse" where
  "setCorsHeaders response orig =
     (let h1 = (case orig of
                  None \<Rightarrow> (headers response)(''Access-Control-Allow-Origin'' \<mapsto> defaultOrigin)
                | Some a \<Rightarrow>
                    if a \<noteq> [] \<and> a \<in> set allowedOrigins
                    then (headers response)(''Access-Control-Allow-Origin'' \<mapsto> a,
                           ''Access-Control-Allow-Credentials'' \<mapsto> ''true'')
                    else (headers response)(''Access-Control-Allow-Origin'' \<mapsto> defaultOrigin))
      in response\<lparr>headers := h1(''Access-Control-Allow-Methods'' \<mapsto> ''POST, OPTIONS'',
           ''Access-Control-Allow-Headers'' \<mapsto> ''Content-Type, Authorization, X-Requested-With'',
           ''Access-Control-Max-Age'' \<mapsto> ''86400'')\<rparr>)"

definition OPTIONS :: "NextRequest \<Rightarrow> NextResponse" where
  "OPTIONS request = setCorsHeaders (emptyResponse 200) (origin request)"

text \<open>
  \<^verbatim>\<open>POST\<close>. A prompt that is truthy and no string has no \<^verbatim>\<open>substring\<close> method: the
  line that logs it throws a TypeError, which the handler's \<^verbatim>\<open>catch\<close> answers.
\<close>

definition POST :: "platform \<Rightarrow> world \<Rightarrow> NextRequest \<Rightarrow> NextResponse \<times> world" where
  "POST pf w request =
     (case json_body request of
        None \<Rightarrow>
          (setCorsHeaders (jsonResponse (ErrorBody ''Failed to generate diagnosis'') 500)
             (origin request), w)
      | Some body \<Rightarrow>
          if \<not> truthy (opt_prop (Some body) ''prompt'') then
            (setCorsHeaders (jsonResponse (ErrorBody ''Prompt is required'') 400)
               (origin request), w)
          else (case opt_prop (Some body) ''prompt'' of
                  Some (JStr p) \<Rightarrow>
                    (case runClarityOnServer pf w p of
                       (data, w') \<Rightarrow>
                         (setCorsHeaders (jsonResponse (EntryBody data) 200) (origin request), w'))
                | _ \<Rightarrow>
                    (setCorsHeaders (jsonResponse (ErrorBody ''Failed to generate diagnosis'') 500)
                       (origin request), w)))"

section \<open>The coercer as the specification words it\<close>

text \<open>
  The text from a closing brace on: the first \<^verbatim>\<open>}\<close> that only white space separates
  from a closing fence ends the body.
\<close>

fun closing :: "string \<Rightarrow> string option" where
  "closing [] = None"
| "closing (c # cs) =
     (if c = CHR ''}'' \<and> prefix ''```'' (dropWhile is_space cs) then Some [c]
      else map_option ((#) c) (closing cs))"

text \<open>
  A fence that opens at the start of \<open>s\<close>: three backquotes, the tag json (which
  \<open>tagged\<close> demands and which is optional otherwise), white space, and a body from an
  opening brace to the closing one.
\<close>

definition fenceAt :: "bool \<Rightarrow> string \<Rightarrow> string option" where
  "fenceAt tagged s =
     (if \<not> prefix ''```'' s then None
      else if \<not> prefix ''json'' (drop 3 s) \<and> tagged then None
      else (case dropWhile is_space
                   (if prefix ''json'' (drop 3 s) then drop 7 s else drop 3 s) of
              [] \<Rightarrow> None
            | c # b \<Rightarrow> if c = CHR ''{'' then map_option ((#) c) (closing b) else None))"

fun firstFence :: "bool \<Rightarrow> string \<Rightarrow> string option" where
  "firstFence tagged [] = None"
| "firstFence tagged (c # cs) =
     (case fenceAt tagged (c # cs) of Some b \<Rightarrow> Some b | None \<Rightarrow> firstFence tagged cs)"

text \<open>The substring from the first \<^verbatim>\<open>{\<close> to the last \<^verbatim>\<open>}\<close> behind it.\<close>

definition outerBraces :: "string \<Rightarrow> string option" where
  "outerBraces s =
     (case dropWhile (\<lambda>c. c \<noteq> CHR ''{'') s of
        [] \<Rightarrow> None
      | c # t \<Rightarrow>
          if CHR ''}'' \<in> set t
          then Some (c # rev (dropWhile (\<lambda>d. d \<noteq> CHR ''}'') (rev t)))
          else None)"

definition coerceJson_spec :: "bool \<Rightarrow> platform \<Rightarrow> string \<Rightarrow> json option" where
  "coerceJson_spec tagged pf c =
     (case firstFence tagged c of
        Some g \<Rightarrow>
          (case JSON_parse pf g of
             Some v \<Rightarrow> Some v
           | None \<Rightarrow> (case outerBraces c of None \<Rightarrow> None | Some b \<Rightarrow> JSON_parse pf b))
      | None \<Rightarrow> (case outerBraces c of None \<Rightarrow> None | Some b \<Rightarrow> JSON_parse pf b))"

section \<open>What the claims speak of\<close>

text \<open>Empty values: the empty string, the empty array, the empty object and
  \<^verbatim>\<open>null\<close>.\<close>

fun is_empty :: "json \<Rightarrow> bool" where
  "is_empty JNull = True"
| "is_empty (JStr s) = (s = [])"
| "is_empty (JArr xs) = (xs = [])"
| "is_empty (JObj kvs) = (kvs = [])"
| "is_empty v = False"

text \<open>
  The value of \<^verbatim>\<open>parsed\<close> when a run reaches the merge, \<open>None\<close> when it does not or
  when the coercer signalled absence.
\<close>

definition upstreamParsed :: "platform \<Rightarrow> world \<Rightarrow> string \<Rightarrow> json option" where
  "upstreamParsed pf w p =
     (case GEMINI_API_KEY w of
        None \<Rightarrow> None
      | Some key \<Rightarrow>
          if key = [] then None
          else (case parseUpstream pf (fst (network w (clock w) (geminiRequest key p))) of
                  Inl e \<Rightarrow> None
                | Inr parsed \<Rightarrow> parsed))"

text \<open>
  The failure paths of a run: no credential, the transport failed, the upstream status is
  no success, the body is no JSON, the completion text is empty or no string, the coercer
  found nothing to parse.
\<close>

definition failurePath :: "platform \<Rightarrow> world \<Rightarrow> string \<Rightarrow> bool" where
  "failurePath pf w p =
     (case GEMINI_API_KEY w of
        None \<Rightarrow> True
      | Some key \<Rightarrow>
          if key = [] then True
          else (case fst (network w (clock w) (geminiRequest key p)) of
                  NetworkError \<Rightarrow> True
                | Responded st body \<Rightarrow>
                    if \<not> response_ok st then True
                    else (case JSON_parse pf body of
                            None \<Rightarrow> True
                          | Some j \<Rightarrow>
                              (case completionText j of
                                 JStr t \<Rightarrow> t = [] \<or> coerceJson pf (Some t) = None
                               | JNull \<Rightarrow> True
                               | JBool b \<Rightarrow> True
                               | JNum n \<Rightarrow> True
                               | JArr xs \<Rightarrow> True
                               | JObj kvs \<Rightarrow> True))))"

text \<open>
  A world in which a second invocation can start after a first one has left \<open>w\<close>: the
  clock has not been set back, the generator of identifiers is the same and has not
  forgotten a draw. Everything else may have changed.
\<close>

definition later :: "world \<Rightarrow> world \<Rightarrow> bool" where
  "later w w' =
     (clock w \<le> clock w' \<and> uuid_source w' = uuid_source w \<and> uuid_drawn w \<le> uuid_drawn w')"

text \<open>The value an object holds under a name, \<open>d\<close> when it holds none or holds
  \<^verbatim>\<open>null\<close>.\<close>

definition fieldOr :: "(string \<times> json) list \<Rightarrow> string \<Rightarrow> json \<Rightarrow> json" where
  "fieldOr kvs k d =
     (case map_of kvs k of None \<Rightarrow> d | Some v \<Rightarrow> if v = JNull then d else v)"

text \<open>The report field of what \<^verbatim>\<open>generateReport\<close> resolves to.\<close>

definition reportOf :: "thrown + json \<Rightarrow> json option" where
  "reportOf r = (case r of Inl e \<Rightarrow> None | Inr v \<Rightarrow> js_prop v ''report'')"

section \<open>Sample inputs\<close>

text \<open>
  A platform and worlds to run the definitions on. \<open>demoParse\<close> is \<^verbatim>\<open>JSON.parse\<close> on
  the texts listed and throws on any other; \<open>demoISO\<close> is \<^verbatim>\<open>toISOString\<close> at the two
  instants listed.
\<close>

definition envelope :: "string \<Rightarrow> json" where
  "envelope t =
     JObj [(''candidates'', JArr [JObj [(''content'',
       JObj [(''parts'', JArr [JObj [(''text'', JStr t)]])])]])]"

definition jsonEscape :: "string \<Rightarrow> string" where
  "jsonEscape s =
     concat (map (\<lambda>c. if c = CHR 0x22 then [CHR 0x5C, CHR 0x22]
                       else if c = CHR 0x5C then [CHR 0x5C, CHR 0x5C]
                       else if c = CHR 0x0A then [CHR 0x5C, CHR ''n'']
                       else [c]) s)"

definition envelopeText :: "string \<Rightarrow> string" where
  \<open>envelopeText t =
     ''{"candidates":[{"content":{"parts":[{"text":"'' @ jsonEscape t @ ''"}]}}]}''\<close>

definition emptySummaryText :: string where
  \<open>emptySummaryText = ''{"summary":""}''\<close>

definition onlySummaryText :: string where
  \<open>onlySummaryText = ''{"summary":"Rest first."}''\<close>

definition ownIdText :: string where
  \<open>ownIdText = ''{"id":"x1","createdAt":"1999","summary":"Rest first."}''\<close>

definition noSummaryText :: string where
  \<open>noSummaryText = ''{"id":"x1"}''\<close>

definition fencedText :: string where
  \<open>fencedText =
     ''Here is the plan: ```json\<newline>{"summary":"Rest first."}\<newline>``` Take care.''\<close>

definition bareFenceText :: string where
  \<open>bareFenceText = ''```{"summary":"Rest first."}``` or {}''\<close>

definition demoParse :: "string \<Rightarrow> json option" where
  "demoParse s =
     (if s = emptySummaryText then Some (JObj [(''summary'', JStr [])])
      else if s = onlySummaryText then Some (JObj [(''summary'', JStr ''Rest first.'')])
      else if s = ownIdText then
        Some (JObj [(''id'', JStr ''x1''), (''createdAt'', JStr ''1999''),
                    (''summary'', JStr ''Rest first.'')])
      else if s = noSummaryText then Some (JObj [(''id'', JStr ''x1'')])
      else if s = envelopeText emptySummaryText then Some (envelope emptySummaryText)
      else if s = envelopeText onlySummaryText then Some (envelope onlySummaryText)
      else if s = envelopeText ownIdText then Some (envelope ownIdText)
      else if s = envelopeText fencedText then Some (envelope fencedText)
      else None)"

definition demoISO :: "nat \<Rightarrow> string" where
  "demoISO t =
     (if t = 1700000000250 then ''2023-11-14T22:13:20.250Z''
      else ''2023-11-14T22:13:20.000Z'')"

definition demoPlatform :: platform where
  "demoPlatform = \<lparr>JSON_parse = demoParse, toISOString = demoISO\<rparr>"

definition demoUUIDs :: "nat \<Rightarrow> string" where
  "demoUUIDs n =
     (if n = 0 then ''1b4e28ba-2fa1-4d3b-a3f5-ef19b5a7633b''
      else if n = 1 then ''6fa459ea-ee8a-4ca4-894e-db77e160355e''
      else ''16fd2706-8baf-433b-82eb-8c7fada847da'')"

text \<open>A server at 2023-11-14T22:13:20.000Z with the given credential, whose every
  request is answered with \<open>res\<close> after 250 milliseconds.\<close>

definition demoWorld :: "string option \<Rightarrow> fetch_result \<Rightarrow> world" where
  "demoWorld key res =
     \<lparr>GEMINI_API_KEY = key, NEXT_PUBLIC_VERCEL_API_URL = None, has_window = False,
      clock = 1700000000000, uuid_source = demoUUIDs, uuid_drawn = 0,
      network = (\<lambda>t rq. (res, 250)), sent = []\<rparr>"

section \<open>The matcher on the two patterns\<close>

lemma first_append:
  "first (xs @ ys) = (case first xs of Some x \<Rightarrow> Some x | None \<Rightarrow> first ys)"
  by (cases xs) simp_all

lemma exec_first:
  "exec r s = map_option (\<lambda>st. (take (length s - length (snd st)) s, fst st)) (first (matches r ([], s)))"
  by (simp add: exec_def)

lemma matches_lit:
  "matches (lit l) (caps, s) = (if prefix l s then [(caps, drop (length l) s)] else [])"
proof (induction l arbitrary: s)
  case Nil
  show ?case by simp
next
  case (Cons c cs)
  show ?case by (cases s) (simp_all add: Cons.IH)
qed

lemma star_atom_Nil: "matches (Star (Atom a)) (caps, []) = [(caps, [])]"
  by simp

lemma star_atom_Cons:
  "matches (Star (Atom a)) (caps, x # xs) =
     (if in_atom a x then matches (Star (Atom a)) (caps, xs) @ [(caps, x # xs)]
      else [(caps, x # xs)])"
  by simp

lemma lazy_atom_Nil: "matches (StarLazy (Atom a)) (caps, []) = [(caps, [])]"
  by simp

lemma lazy_atom_Cons:
  "matches (StarLazy (Atom a)) (caps, x # xs) =
     (caps, x # xs) # (if in_atom a x then matches (StarLazy (Atom a)) (caps, xs) else [])"
  by simp

lemma spaces_then:
  assumes r: "\<And>caps x xs. is_space x \<Longrightarrow> matches r (caps, x # xs) = []"
  shows "matches (Seq (Star (Atom Space)) r) (caps, s) = matches r (caps, dropWhile is_space s)"
proof (induction s)
  case Nil
  show ?case by simp
next
  case (Cons x xs)
  show ?case
  proof (cases "is_space x")
    case True
    have "matches (Seq (Star (Atom Space)) r) (caps, x # xs) =
            matches (Seq (Star (Atom Space)) r) (caps, xs) @ matches r (caps, x # xs)"
      using True by (simp del: matches.simps(6) add: star_atom_Cons)
    then show ?thesis using True Cons.IH by (simp add: r)
  next
    case False
    then show ?thesis by (simp del: matches.simps(6) add: star_atom_Cons)
  qed
qed


subsection \<open>The direct pattern\<close>

lemma greedy_close_Nil:
  "matches (Seq (Star (Atom AnyChar)) (Atom (Lit CHR ''}''))) (caps, []) = []"
  by simp

lemma greedy_close_Cons:
  "matches (Seq (Star (Atom AnyChar)) (Atom (Lit CHR ''}''))) (caps, x # xs) =
     matches (Seq (Star (Atom AnyChar)) (Atom (Lit CHR ''}''))) (caps, xs) @
     (if x = CHR ''}'' then [(caps, xs)] else [])"
  by (simp del: matches.simps(6) add: star_atom_Cons)

lemma greedy_close:
  "first (matches (Seq (Star (Atom AnyChar)) (Atom (Lit CHR ''}''))) (caps, t)) =
     (if CHR ''}'' \<in> set t
      then Some (caps, rev (takeWhile (\<lambda>d. d \<noteq> CHR ''}'') (rev t)))
      else None)"
proof (induction t)
  case Nil
  show ?case by simp
next
  case (Cons x xs)
  show ?case
  proof (cases "CHR ''}'' \<in> set xs")
    case True
    have tw: "takeWhile (\<lambda>d. d \<noteq> CHR ''}'') (rev xs @ [x]) = takeWhile (\<lambda>d. d \<noteq> CHR ''}'') (rev xs)"
      using True by (intro takeWhile_append1[where x = "CHR ''}''"]) auto
    show ?thesis
      unfolding greedy_close_Cons first_append Cons.IH using True
      by (simp add: tw del: matches.simps)
  next
    case False
    have tw: "takeWhile (\<lambda>d. d \<noteq> CHR ''}'') (rev xs @ [x]) = rev xs @ takeWhile (\<lambda>d. d \<noteq> CHR ''}'') [x]"
      using False by (intro takeWhile_append2) auto
    have "rev (takeWhile (\<lambda>d. d \<noteq> CHR ''}'') (rev (x # xs))) =
            (if x = CHR ''}'' then xs else x # xs)"
      by (simp add: tw)
    then have r: "x = CHR ''}'' \<Longrightarrow> rev (takeWhile (\<lambda>d. d \<noteq> CHR ''}'') (rev (x # xs))) = xs"
      by simp
    show ?thesis
    proof (cases "x = CHR ''}''")
      case True
      show ?thesis
        unfolding greedy_close_Cons first_append Cons.IH r [OF True] using False True
        by (simp del: matches.simps)
    next
      case False
      show ?thesis
        unfolding greedy_close_Cons first_append Cons.IH using False \<open>CHR ''}'' \<notin> set xs\<close>
        by (simp del: matches.simps)
    qed
  qed
qed

lemma take_upto_last:
  "take (length t - length (takeWhile P (rev t))) t = rev (dropWhile P (rev t))"
proof -
  have "t = rev (dropWhile P (rev t)) @ rev (takeWhile P (rev t))"
    by (metis rev_append rev_rev_ident takeWhile_dropWhile_id)
  moreover have "length (rev (dropWhile P (rev t))) = length t - length (takeWhile P (rev t))"
    by (metis add_diff_cancel_left' length_append length_rev takeWhile_dropWhile_id)
  ultimately show ?thesis
    by (metis append_eq_conv_conj)
qed

lemma matches_jsonRe:
  "matches jsonRe (caps, s) =
     (case s of [] \<Rightarrow> []
      | x # t \<Rightarrow> if x = CHR ''{''
                 then matches (Seq (Star (Atom AnyChar)) (Atom (Lit CHR ''}''))) (caps, t)
                 else [])"
  by (cases s) (simp_all add: jsonRe_def del: matches.simps(6))

lemma exec_jsonRe:
  "exec jsonRe s =
     (case s of [] \<Rightarrow> None
      | x # t \<Rightarrow> if x = CHR ''{'' \<and> CHR ''}'' \<in> set t
                 then Some (x # rev (dropWhile (\<lambda>d. d \<noteq> CHR ''}'') (rev t)), [])
                 else None)"
proof (cases s)
  case Nil
  then show ?thesis by (simp add: exec_first matches_jsonRe)
next
  case (Cons x t)
  have le: "length (takeWhile (\<lambda>d. d \<noteq> CHR ''}'') (rev t)) \<le> length t"
    by (metis length_rev length_takeWhile_le)
  show ?thesis
    unfolding Cons exec_first matches_jsonRe
    using le by (simp add: greedy_close Suc_diff_le take_upto_last del: matches.simps)
qed

lemma outerBraces_none:
  assumes "CHR ''}'' \<notin> set s"
  shows "outerBraces s = None"
proof (cases "dropWhile (\<lambda>c. c \<noteq> CHR ''{'') s")
  case Nil
  show ?thesis unfolding outerBraces_def Nil by simp
next
  case (Cons c t)
  have "set t \<subseteq> set s"
    using set_dropWhileD [of _ "\<lambda>c. c \<noteq> CHR ''{''" s] Cons by auto
  with assms have "CHR ''}'' \<notin> set t" by auto
  with Cons show ?thesis by (simp add: outerBraces_def)
qed

lemma match_jsonRe: "match jsonRe s = map_option (\<lambda>b. (b, [])) (outerBraces s)"
proof (induction s)
  case Nil
  show ?case by (simp add: exec_jsonRe outerBraces_def)
next
  case (Cons x xs)
  show ?case
  proof (cases "x = CHR ''{''")
    case True
    show ?thesis
    proof (cases "CHR ''}'' \<in> set xs")
      case True
      with \<open>x = CHR ''{''\<close> show ?thesis by (simp add: exec_jsonRe outerBraces_def)
    next
      case False
      with \<open>x = CHR ''{''\<close> show ?thesis
        by (simp add: exec_jsonRe Cons.IH outerBraces_none)
    qed
  next
    case False
    then show ?thesis by (simp add: exec_jsonRe Cons.IH outerBraces_def)
  qed
qed


subsection \<open>The fence pattern\<close>

lemma not_space [simp]:
  "\<not> is_space CHR ''{''" "\<not> is_space CHR 0x60" "\<not> is_space CHR ''j''"
  by (simp_all add: is_space_def)

lemma lazy_close_Nil:
  "matches (Seq (StarLazy (Atom AnyChar)) (Atom (Lit CHR ''}''))) (caps, []) = []"
  by simp

lemma lazy_close_Cons:
  "matches (Seq (StarLazy (Atom AnyChar)) (Atom (Lit CHR ''}''))) (caps, x # xs) =
     (if x = CHR ''}'' then [(caps, xs)] else []) @
     matches (Seq (StarLazy (Atom AnyChar)) (Atom (Lit CHR ''}''))) (caps, xs)"
  by (simp del: matches.simps(7) add: lazy_atom_Cons)

lemma spaces_lit:
  assumes "l \<noteq> []" and "\<not> is_space (hd l)"
  shows "matches (Seq (Star (Atom Space)) (lit l)) (caps, s) =
     (if prefix l (dropWhile is_space s)
      then [(caps, drop (length l) (dropWhile is_space s))] else [])"
proof -
  have "matches (lit l) (caps', x # xs) = []" if "is_space x" for caps' x xs
    using assms that by (cases l) (auto simp: matches_lit)
  then have "matches (Seq (Star (Atom Space)) (lit l)) (caps, s) =
          matches (lit l) (caps, dropWhile is_space s)"
    by (rule spaces_then)
  then show ?thesis by (simp only: matches_lit)
qed

lemma close_fence:
  "matches (Seq (Star (Atom Space)) (lit ''```'')) (caps, s) =
     (if prefix ''```'' (dropWhile is_space s)
      then [(caps, drop (length ''```'') (dropWhile is_space s))] else [])"
  by (rule spaces_lit) simp_all

text \<open>The states after the body and the closing fence, for a body that started \<open>pre\<close>
  before \<open>u\<close>.\<close>

lemma body_close:
  "first (concat (map (matches (Seq (Star (Atom Space)) (lit ''```'')))
            (map (\<lambda>st'. (fst st' @ [take (length (pre @ u) - length (snd st')) (pre @ u)], snd st'))
               (matches (Seq (StarLazy (Atom AnyChar)) (Atom (Lit CHR ''}''))) (caps, u))))) =
     map_option (\<lambda>b. (caps @ [pre @ b], drop (length ''```'') (dropWhile is_space (drop (length b) u))))
       (closing u)"
proof (induction u arbitrary: pre)
  case Nil
  show ?case unfolding lazy_close_Nil by simp
next
  case (Cons x xs)
  have ih: "first (concat (map (matches (Seq (Star (Atom Space)) (lit ''```'')))
            (map (\<lambda>st'. (fst st' @ [take (length (pre @ x # xs) - length (snd st')) (pre @ x # xs)], snd st'))
               (matches (Seq (StarLazy (Atom AnyChar)) (Atom (Lit CHR ''}''))) (caps, xs))))) =
     map_option (\<lambda>b. (caps @ [(pre @ [x]) @ b], drop (length ''```'') (dropWhile is_space (drop (length b) xs))))
       (closing xs)"
    using Cons.IH [of "pre @ [x]"] by (simp del: matches.simps lit.simps)
  show ?case
    unfolding lazy_close_Cons map_append concat_append first_append ih
    by (simp add: close_fence option.map_comp comp_def del: matches.simps lit.simps split: option.splits)
qed


lemma body_then_close:
  "first (matches (Seq (Group (Seq (Atom (Lit CHR ''{''))
                    (Seq (StarLazy (Atom AnyChar)) (Atom (Lit CHR ''}'')))))
                 (Seq (Star (Atom Space)) (lit ''```''))) (caps, s)) =
     (case s of
        [] \<Rightarrow> None
      | c # u \<Rightarrow>
          if c = CHR ''{''
          then map_option (\<lambda>b. (caps @ [c # b],
                  drop (length ''```'') (dropWhile is_space (drop (length b) u)))) (closing u)
          else None)"
proof (cases s)
  case Nil
  then show ?thesis by (simp del: matches.simps(6,7) lit.simps)
next
  case (Cons c u)
  show ?thesis
  proof (cases "c = CHR ''{''")
    case True
    have g: "matches (Seq (Atom (Lit CHR ''{'')) (Seq (StarLazy (Atom AnyChar)) (Atom (Lit CHR ''}''))))
               (caps, c # u) =
             matches (Seq (StarLazy (Atom AnyChar)) (Atom (Lit CHR ''}''))) (caps, u)"
      using True by (simp del: matches.simps(6,7))
    have "first (matches (Seq (Group (Seq (Atom (Lit CHR ''{''))
                    (Seq (StarLazy (Atom AnyChar)) (Atom (Lit CHR ''}'')))))
                 (Seq (Star (Atom Space)) (lit ''```''))) (caps, c # u)) =
          first (concat (map (matches (Seq (Star (Atom Space)) (lit ''```'')))
            (map (\<lambda>st'. (fst st' @ [take (length ([c] @ u) - length (snd st')) ([c] @ u)], snd st'))
               (matches (Seq (StarLazy (Atom AnyChar)) (Atom (Lit CHR ''}''))) (caps, u)))))"
      unfolding matches.simps(4) [of "Group _"] matches.simps(8) g by simp
    then show ?thesis
      unfolding body_close Cons using True by simp
  next
    case False
    then show ?thesis unfolding Cons by (simp del: matches.simps(6,7) lit.simps)
  qed
qed

lemma body_not_space:
  assumes "x \<noteq> CHR ''{''"
  shows "matches (Seq (Group (Seq (Atom (Lit CHR ''{'')) r)) t) (caps, x # xs) = []"
  using assms by simp

lemma opt_json:
  assumes w: "\<And>caps xs. matches w (caps, CHR ''j'' # xs) = []"
  shows "matches (Seq (Opt (lit ''json'')) w) (caps, s) =
           matches w (caps, if prefix ''json'' s then drop (length ''json'') s else s)"
proof -
  have "matches (Seq (Opt (lit ''json'')) w) (caps, s) =
          concat (map (matches w) (matches (lit ''json'') (caps, s))) @ matches w (caps, s)"
    by (simp del: lit.simps)
  also have "\<dots> = (if prefix ''json'' s then matches w (caps, drop (length ''json'') s) @ matches w (caps, s)
                    else matches w (caps, s))"
    by (simp only: matches_lit) simp
  also have "\<dots> = matches w (caps, if prefix ''json'' s then drop (length ''json'') s else s)"
  proof (cases "prefix ''json'' s")
    case True
    then obtain xs where "s = CHR ''j'' # xs" by (cases s) auto
    with True w show ?thesis by simp
  next
    case False
    then show ?thesis by simp
  qed
  finally show ?thesis .
qed


lemma first_codeBlockRe:
  "map_option fst (first (matches codeBlockRe (caps, s))) =
     map_option (\<lambda>b. caps @ [b]) (fenceAt False s)"
proof -
  define B where "B = Seq (Group (Seq (Atom (Lit CHR ''{''))
                    (Seq (StarLazy (Atom AnyChar)) (Atom (Lit CHR ''}'')))))
                 (Seq (Star (Atom Space)) (lit ''```''))"
  define W where "W = Seq (Star (Atom Space)) B"
  have B0: "matches B (caps', x # xs) = []" if "x \<noteq> CHR ''{''" for caps' x xs
    unfolding B_def using that by (rule body_not_space)
  have W1: "matches W (caps', t) = matches B (caps', dropWhile is_space t)" for caps' t
    unfolding W_def by (rule spaces_then) (auto intro: B0)
  have Wj: "matches W (caps', CHR ''j'' # xs) = []" for caps' xs
    unfolding W1 by (simp add: B0)
  have l3: "length ''```'' = 3" and l4: "length ''json'' = 4"
    by simp_all
  have O: "matches (Seq (Opt (lit ''json'')) W) (caps, t) =
             matches B (caps, dropWhile is_space (if prefix ''json'' t then drop 4 t else t))"
    for t
    unfolding opt_json [of W, OF Wj] W1 l4 ..
  have R: "matches codeBlockRe (caps, s) =
             (if prefix ''```'' s then matches (Seq (Opt (lit ''json'')) W) (caps, drop 3 s) else [])"
    unfolding codeBlockRe_def W_def B_def matches.simps(4) [of "lit _"] matches_lit l3 by simp
  show ?thesis
  proof (cases "prefix ''```'' s")
    case False
    then show ?thesis unfolding R by (simp add: fenceAt_def)
  next
    case True
    define v where
      "v = dropWhile is_space (if prefix ''json'' (drop 3 s) then drop 7 s else drop 3 s)"
    have m: "first (matches codeBlockRe (caps, s)) = first (matches B (caps, v))"
      unfolding R O v_def using True by simp
    have f: "fenceAt False s =
               (case v of [] \<Rightarrow> None
                | c # b \<Rightarrow> if c = CHR ''{'' then map_option ((#) c) (closing b) else None)"
      unfolding v_def using True by (simp add: fenceAt_def)
    show ?thesis
      unfolding m f B_def body_then_close
      by (cases v) (simp_all add: option.map_comp comp_def)
  qed
qed

lemma exec_codeBlockRe:
  "map_option snd (exec codeBlockRe s) = map_option (\<lambda>b. [b]) (fenceAt False s)"
  using first_codeBlockRe [of "[]" s] by (simp add: exec_first option.map_comp comp_def)

lemma match_codeBlockRe:
  "map_option snd (match codeBlockRe s) = map_option (\<lambda>b. [b]) (firstFence False s)"
proof (induction s)
  case Nil
  show ?case using exec_codeBlockRe [of "[]"] by (simp add: fenceAt_def)
next
  case (Cons c cs)
  show ?case
  proof (cases "exec codeBlockRe (c # cs)")
    case None
    with exec_codeBlockRe [of "c # cs"] have "fenceAt False (c # cs) = None" by simp
    with None Cons.IH show ?thesis by simp
  next
    case (Some m)
    with exec_codeBlockRe [of "c # cs"] obtain b where "fenceAt False (c # cs) = Some b" "snd m = [b]"
      by (cases "fenceAt False (c # cs)") auto
    with Some show ?thesis by simp
  qed
qed

lemma coerceDirect_outerBraces:
  "coerceDirect pf c = (case outerBraces c of None \<Rightarrow> None | Some b \<Rightarrow> JSON_parse pf b)"
  by (simp add: coerceDirect_def match_jsonRe split: option.splits)

lemma outerBraces_Nil: "outerBraces [] = None"
  by (simp add: outerBraces_def)

section \<open>Runs of the generation routine\<close>

lemma run_no_key:
  assumes "GEMINI_API_KEY w = None \<or> GEMINI_API_KEY w = Some []"
  shows "runClarityOnServer pf w p =
           (fallbackEntry p (toISOString pf (clock w)) (uuid_source w (uuid_drawn w)),
            w\<lparr>uuid_drawn := Suc (uuid_drawn w)\<rparr>)"
  using assms by (auto simp: runClarityOnServer_def randomUUID_def)

lemma run_key:
  assumes "GEMINI_API_KEY w = Some key" and "key \<noteq> []"
    and "network w (clock w) (geminiRequest key p) = (res, dt)"
  shows "runClarityOnServer pf w p =
           (case parseUpstream pf res of
              Inr parsed \<Rightarrow>
                mergedEntry parsed p (toISOString pf (clock w)) (uuid_source w (uuid_drawn w))
            | Inl e \<Rightarrow> fallbackEntry p (toISOString pf (clock w)) (uuid_source w (uuid_drawn w)),
            w\<lparr>clock := clock w + dt, sent := sent w @ [geminiRequest key p],
              uuid_drawn := Suc (uuid_drawn w)\<rparr>)"
  using assms
  by (simp add: runClarityOnServer_def randomUUID_def fetch_def split: sum.splits)

lemma parseUpstream_text:
  assumes "response_ok st" and "JSON_parse pf body = Some j"
    and "completionText j = JStr t" and "t \<noteq> []"
  shows "parseUpstream pf (Responded st body) = Inr (coerceJson pf (Some t))"
  using assms by (simp add: parseUpstream_def)

lemma completionText_envelope: "completionText (envelope t) = JStr t"
  by (simp add: completionText_def envelope_def)


lemma mergedEntry_None: "mergedEntry None p now u = fallbackEntry p now u"
  by (simp add: mergedEntry_def fallbackEntry_def)

lemma parseUpstream_cases:
  "parseUpstream pf res =
     (case res of
        NetworkError \<Rightarrow> Inl FetchRejected
      | Responded st body \<Rightarrow>
          if \<not> response_ok st then Inl (RequestFailed st body)
          else (case JSON_parse pf body of
                  None \<Rightarrow> Inl BodyNotJson
                | Some j \<Rightarrow>
                    (case completionText j of
                       JStr t \<Rightarrow> if t = [] then Inl NoTextContent
                                 else Inr (coerceJson pf (Some t))
                     | JNull \<Rightarrow> Inl NoTextContent
                     | JBool b \<Rightarrow> if b then Inl NotAFunction else Inl NoTextContent
                     | JNum n \<Rightarrow> if n = 0 then Inl NoTextContent else Inl NotAFunction
                     | JArr xs \<Rightarrow> Inl NotAFunction
                     | JObj kvs \<Rightarrow> Inl NotAFunction)))"
  by (simp add: parseUpstream_def split: fetch_result.splits option.splits json.splits)

text \<open>The entry of a run in one equation, and what a run leaves of the world.\<close>

lemma run_entry:
  "fst (runClarityOnServer pf w p) =
     mergedEntry (upstreamParsed pf w p) p (toISOString pf (clock w)) (uuid_source w (uuid_drawn w))"
proof (cases "GEMINI_API_KEY w = None \<or> GEMINI_API_KEY w = Some []")
  case True
  then show ?thesis
    by (auto simp: run_no_key upstreamParsed_def mergedEntry_None)
next
  case False
  then obtain k where k: "GEMINI_API_KEY w = Some k" "k \<noteq> []" by auto
  obtain res dt where n: "network w (clock w) (geminiRequest k p) = (res, dt)"
    by (cases "network w (clock w) (geminiRequest k p)")
  show ?thesis
    by (cases "parseUpstream pf res")
       (simp_all add: run_key [OF k n] upstreamParsed_def k n mergedEntry_None)
qed

lemma failurePath_parsed: "failurePath pf w p \<longleftrightarrow> upstreamParsed pf w p = None"
proof (cases "GEMINI_API_KEY w")
  case None
  then show ?thesis by (simp add: failurePath_def upstreamParsed_def)
next
  case (Some key)
  show ?thesis
  proof (cases "fst (network w (clock w) (geminiRequest key p))")
    case NetworkError
    with Some show ?thesis
      by (simp add: failurePath_def upstreamParsed_def parseUpstream_cases)
  next
    case (Responded st body)
    show ?thesis
    proof (cases "JSON_parse pf body")
      case None
      with Some Responded show ?thesis
        by (simp add: failurePath_def upstreamParsed_def parseUpstream_cases)
    next
      case (Some j)
      with \<open>GEMINI_API_KEY w = Some key\<close> Responded show ?thesis
        by (cases "completionText j")
           (simp_all add: failurePath_def upstreamParsed_def parseUpstream_cases)
    qed
  qed
qed

lemma nullish_cases: "nullish x d = d \<or> x = Some (nullish x d)"
  by (cases x; cases "the x") simp_all

lemma fallback_not_empty:
  "\<not> is_empty fallback_summary" "\<not> is_empty fallback_feelings"
  "\<not> is_empty fallback_actionPlan" "\<not> is_empty fallback_reflectionPrompts"
  by (simp_all add: fallback_summary_def fallback_feelings_def fallback_actionPlan_def
        fallback_reflectionPrompts_def)


lemma run_world:
  "uuid_source (snd (runClarityOnServer pf w p)) = uuid_source w \<and>
   uuid_drawn (snd (runClarityOnServer pf w p)) = Suc (uuid_drawn w) \<and>
   clock w \<le> clock (snd (runClarityOnServer pf w p))"
proof (cases "GEMINI_API_KEY w = None \<or> GEMINI_API_KEY w = Some []")
  case True
  then show ?thesis by (simp add: run_no_key)
next
  case False
  then obtain k where k: "GEMINI_API_KEY w = Some k" "k \<noteq> []" by auto
  obtain res dt where n: "network w (clock w) (geminiRequest k p) = (res, dt)"
    by (cases "network w (clock w) (geminiRequest k p)")
  show ?thesis by (simp add: run_key [OF k n])
qed


section \<open>Responses of the endpoint\<close>

lemma cors_status [simp]:
  "status (setCorsHeaders r orig) = status r" "payload (setCorsHeaders r orig) = payload r"
  by (simp_all add: setCorsHeaders_def Let_def)

lemma defaultOrigin_eq: "defaultOrigin = ''http://localhost:3000''"
  by (simp add: defaultOrigin_def allowedOrigins_def)

lemma allowed_not_Nil: "a \<in> set allowedOrigins \<Longrightarrow> a \<noteq> []"
  by (auto simp: allowedOrigins_def)

lemma cors_fixed:
  "headers (setCorsHeaders r orig) ''Access-Control-Allow-Methods'' = Some ''POST, OPTIONS''"
  "headers (setCorsHeaders r orig) ''Access-Control-Allow-Headers'' =
     Some ''Content-Type, Authorization, X-Requested-With''"
  "headers (setCorsHeaders r orig) ''Access-Control-Max-Age'' = Some ''86400''"
  by (simp_all add: setCorsHeaders_def Let_def)

lemma cors_allowed:
  assumes "a \<in> set allowedOrigins"
  shows "headers (setCorsHeaders r (Some a)) ''Access-Control-Allow-Origin'' = Some a"
    and "headers (setCorsHeaders r (Some a)) ''Access-Control-Allow-Credentials'' = Some ''true''"
  using assms allowed_not_Nil [OF assms] by (simp_all add: setCorsHeaders_def Let_def)

lemma cors_other:
  assumes "orig = None \<or> (orig = Some a \<and> a \<notin> set allowedOrigins)"
  shows "headers (setCorsHeaders r orig) ''Access-Control-Allow-Origin'' = Some defaultOrigin"
    and "headers (setCorsHeaders r orig) ''Access-Control-Allow-Credentials'' =
           headers r ''Access-Control-Allow-Credentials''"
  using assms by (auto simp: setCorsHeaders_def Let_def)

lemma POST_shape:
  "\<exists>d st. fst (POST pf w request) = setCorsHeaders (jsonResponse d st) (origin request)"
  by (auto simp: POST_def split: option.splits json.splits prod.splits)

lemma fresh_no_credentials:
  "headers (jsonResponse d st) ''Access-Control-Allow-Credentials'' = None"
  "headers (emptyResponse st) ''Access-Control-Allow-Credentials'' = None"
  by (simp_all add: jsonResponse_def emptyResponse_def)


lemma POST_no_body:
  assumes "json_body request = None"
  shows "POST pf w request =
    (setCorsHeaders (jsonResponse (ErrorBody ''Failed to generate diagnosis'') 500)
       (origin request), w)"
  using assms by (simp add: POST_def)

lemma POST_falsy:
  assumes "json_body request = Some b" and "\<not> truthy (opt_prop (Some b) ''prompt'')"
  shows "POST pf w request =
    (setCorsHeaders (jsonResponse (ErrorBody ''Prompt is required'') 400) (origin request), w)"
  using assms by (simp add: POST_def)

lemma POST_string:
  assumes "json_body request = Some b" and "opt_prop (Some b) ''prompt'' = Some (JStr s)"
    and "s \<noteq> []"
  shows "POST pf w request =
    (setCorsHeaders (jsonResponse (EntryBody (fst (runClarityOnServer pf w s))) 200)
       (origin request), snd (runClarityOnServer pf w s))"
  using assms by (simp add: POST_def split: prod.splits)

lemma POST_other:
  assumes "json_body request = Some b" and "truthy (opt_prop (Some b) ''prompt'')"
    and "\<And>s. opt_prop (Some b) ''prompt'' \<noteq> Some (JStr s)"
  shows "POST pf w request =
    (setCorsHeaders (jsonResponse (ErrorBody ''Failed to generate diagnosis'') 500)
       (origin request), w)"
proof (cases "opt_prop (Some b) ''prompt''")
  case None
  with assms show ?thesis by simp
next
  case (Some v)
  with assms show ?thesis by (cases v) (auto simp: POST_def)
qed


section \<open>The sample inputs evaluated\<close>

lemma demoParse_envelope:
  "demoParse (envelopeText emptySummaryText) = Some (envelope emptySummaryText)"
  "demoParse (envelopeText onlySummaryText) = Some (envelope onlySummaryText)"
  "demoParse (envelopeText ownIdText) = Some (envelope ownIdText)"
  "demoParse (envelopeText fencedText) = Some (envelope fencedText)"
  by (simp_all add: demoParse_def envelopeText_def jsonEscape_def emptySummaryText_def
        onlySummaryText_def ownIdText_def noSummaryText_def fencedText_def)

lemma demoParse_text:
  "demoParse emptySummaryText = Some (JObj [(''summary'', JStr [])])"
  "demoParse onlySummaryText = Some (JObj [(''summary'', JStr ''Rest first.'')])"
  "demoParse ownIdText = Some (JObj [(''id'', JStr ''x1''), (''createdAt'', JStr ''1999''),
                    (''summary'', JStr ''Rest first.'')])"
  "demoParse noSummaryText = Some (JObj [(''id'', JStr ''x1'')])"
  by (simp_all add: demoParse_def emptySummaryText_def onlySummaryText_def ownIdText_def
        noSummaryText_def)

lemma match_emptySummaryText:
  "match codeBlockRe emptySummaryText = None"
  "match jsonRe emptySummaryText = Some (emptySummaryText, [])"
  by (simp_all add: emptySummaryText_def codeBlockRe_def jsonRe_def exec_def)

lemma match_onlySummaryText:
  "match codeBlockRe onlySummaryText = None"
  "match jsonRe onlySummaryText = Some (onlySummaryText, [])"
  by (simp_all add: onlySummaryText_def codeBlockRe_def jsonRe_def exec_def)

lemma match_ownIdText:
  "match codeBlockRe ownIdText = None"
  "match jsonRe ownIdText = Some (ownIdText, [])"
  by (simp_all add: ownIdText_def codeBlockRe_def jsonRe_def exec_def)

lemma match_fencedText:
  "match codeBlockRe fencedText = Some (''```json\<newline>'' @ onlySummaryText @ ''\<newline>```'', [onlySummaryText])"
  by (simp add: fencedText_def onlySummaryText_def codeBlockRe_def exec_def is_space_def)

lemma nonempty_texts:
  "emptySummaryText \<noteq> []" "onlySummaryText \<noteq> []" "ownIdText \<noteq> []" "fencedText \<noteq> []"
  by (simp_all add: emptySummaryText_def onlySummaryText_def ownIdText_def fencedText_def)

lemma coerce_demo:
  "coerceJson demoPlatform (Some emptySummaryText) = Some (JObj [(''summary'', JStr [])])"
  "coerceJson demoPlatform (Some onlySummaryText) = Some (JObj [(''summary'', JStr ''Rest first.'')])"
  "coerceJson demoPlatform (Some ownIdText) = Some (JObj [(''id'', JStr ''x1''), (''createdAt'', JStr ''1999''),
                    (''summary'', JStr ''Rest first.'')])"
  "coerceJson demoPlatform (Some fencedText) = Some (JObj [(''summary'', JStr ''Rest first.'')])"
  by (simp_all add: coerceJson_def coerceDirect_def nonempty_texts match_emptySummaryText
        match_onlySummaryText match_ownIdText match_fencedText demoPlatform_def demoParse_text)

lemma demo_parsed:
  assumes "demoParse (envelopeText t) = Some (envelope t)" and "t \<noteq> []"
  shows "upstreamParsed demoPlatform (demoWorld (Some ''k'') (Responded 200 (envelopeText t))) p =
           coerceJson demoPlatform (Some t)"
proof -
  have "parseUpstream demoPlatform (Responded 200 (envelopeText t)) =
          Inr (coerceJson demoPlatform (Some t))"
    by (rule parseUpstream_text [where j = "envelope t"])
       (simp_all add: response_ok_def demoPlatform_def assms completionText_envelope)
  then show ?thesis
    by (simp add: upstreamParsed_def demoWorld_def)
qed

lemma demo_start:
  "toISOString demoPlatform (clock (demoWorld key res)) = ''2023-11-14T22:13:20.000Z''"
  "uuid_source (demoWorld key res) (uuid_drawn (demoWorld key res)) =
     ''1b4e28ba-2fa1-4d3b-a3f5-ef19b5a7633b''"
  by (simp_all add: demoWorld_def demoPlatform_def demoISO_def demoUUIDs_def)


section \<open>The claims\<close>

text \<open>
  C3, as amended. Given any input string, \<^verbatim>\<open>coerceJson\<close> first looks for a markdown
  code fence, tagged json or not tagged at all, that holds a brace-delimited body; when
  there is one and its body parses as JSON it returns the parsed object, and it falls
  through when the body does not parse. Otherwise it takes the substring of the whole
  input from the first opening brace to the last closing brace, signals absence when
  there is none, returns the parsed object when the substring parses and signals absence
  when it does not. Absent and empty input give absence.
\<close>

theorem C3_coercer_fence_then_braces:
  "coerceJson pf None = None \<and> coerceJson pf (Some c) = coerceJson_spec False pf c"
proof
  show "coerceJson pf None = None" by (simp add: coerceJson_def)
next
  show "coerceJson pf (Some c) = coerceJson_spec False pf c"
  proof (cases "c = []")
    case True
    then show ?thesis by (simp add: coerceJson_def coerceJson_spec_def outerBraces_Nil)
  next
    case False
    show ?thesis
    proof (cases "firstFence False c")
      case None
      with match_codeBlockRe [of c] have "match codeBlockRe c = None" by simp
      with None False show ?thesis
        by (simp add: coerceJson_def coerceJson_spec_def coerceDirect_outerBraces)
    next
      case (Some b)
      with match_codeBlockRe [of c] obtain whole where "match codeBlockRe c = Some (whole, [b])"
        by (cases "match codeBlockRe c") auto
      with Some False show ?thesis
        by (simp add: coerceJson_def coerceJson_spec_def coerceDirect_outerBraces
              split: option.splits)
    qed
  qed
qed

theorem C3_coercer_fence_then_braces_witness:
  "coerceJson demoPlatform (Some fencedText) = Some (JObj [(''summary'', JStr ''Rest first.'')]) \<and>
   coerceJson_spec False demoPlatform fencedText =
     Some (JObj [(''summary'', JStr ''Rest first.'')])"
  using C3_coercer_fence_then_braces [of demoPlatform fencedText] coerce_demo(4) by simp

text \<open>
  C3 as stated asks for a fence tagged json. A fence without the tag is taken as well:
  on the text below the code returns the object in the fence, where the claim's words
  lead to the substring from the first to the last brace, which does not parse.
\<close>

theorem C3_untagged_fence_counterexample:
  "coerceJson demoPlatform (Some bareFenceText) =
     Some (JObj [(''summary'', JStr ''Rest first.'')]) \<and>
   coerceJson_spec True demoPlatform bareFenceText = None"
proof -
  have m: "match codeBlockRe bareFenceText =
             Some (''```'' @ onlySummaryText @ ''```'', [onlySummaryText])"
    by (simp add: bareFenceText_def onlySummaryText_def codeBlockRe_def exec_def is_space_def)
  have ne: "bareFenceText \<noteq> []" by (simp add: bareFenceText_def)
  have f: "firstFence True bareFenceText = None"
    by (simp add: bareFenceText_def fenceAt_def)
  have o: "outerBraces bareFenceText = Some (onlySummaryText @ ''``` or {}'')"
    by (simp add: bareFenceText_def onlySummaryText_def outerBraces_def)
  have p: "demoParse (onlySummaryText @ ''``` or {}'') = None"
    by (simp add: demoParse_def emptySummaryText_def onlySummaryText_def
          ownIdText_def noSummaryText_def fencedText_def envelopeText_def jsonEscape_def)
  show ?thesis
    by (simp add: coerceJson_def coerceJson_spec_def m ne f o p demoPlatform_def demoParse_text)
qed

text \<open>Helpers for the merge.\<close>

lemma nullish_Some: "v \<noteq> JNull \<Longrightarrow> nullish (Some v) d = v"
  by (cases v) simp_all

lemma nullish_fieldOr: "nullish (map_of kvs k) d = fieldOr kvs k d"
  by (cases "map_of kvs k"; cases "the (map_of kvs k)") (simp_all add: fieldOr_def)

text \<open>
  C6. When the upstream credential is absent (the variable is unset or empty), the entry
  that \<^verbatim>\<open>runClarityOnServer\<close> returns has the summary, feelings, actionPlan and
  reflectionPrompts of the Fallback Record, for every prompt.
\<close>

theorem C6_fallback_without_credential:
  assumes "GEMINI_API_KEY w = None \<or> GEMINI_API_KEY w = Some []"
  shows "summary (fst (runClarityOnServer pf w p)) = fallback_summary \<and>
         feelings (fst (runClarityOnServer pf w p)) = fallback_feelings \<and>
         actionPlan (fst (runClarityOnServer pf w p)) = fallback_actionPlan \<and>
         reflectionPrompts (fst (runClarityOnServer pf w p)) = fallback_reflectionPrompts"
  by (simp add: run_no_key [OF assms] fallbackEntry_def)

theorem C6_fallback_without_credential_witness:
  "GEMINI_API_KEY (demoWorld None NetworkError) = None \<and>
   summary (fst (runClarityOnServer demoPlatform (demoWorld None NetworkError) ''I feel stuck'')) =
     fallback_summary \<and>
   feelings (fst (runClarityOnServer demoPlatform (demoWorld None NetworkError) ''I feel stuck'')) =
     fallback_feelings \<and>
   actionPlan (fst (runClarityOnServer demoPlatform (demoWorld None NetworkError) ''I feel stuck'')) =
     fallback_actionPlan \<and>
   reflectionPrompts
     (fst (runClarityOnServer demoPlatform (demoWorld None NetworkError) ''I feel stuck'')) =
     fallback_reflectionPrompts"
proof -
  have k: "GEMINI_API_KEY (demoWorld None NetworkError) = None"
    by (simp add: demoWorld_def)
  then have "GEMINI_API_KEY (demoWorld None NetworkError) = None \<or>
             GEMINI_API_KEY (demoWorld None NetworkError) = Some []" ..
  from C6_fallback_without_credential [OF this, of demoPlatform "''I feel stuck''"] k
  show ?thesis by simp
qed

text \<open>
  C8. In every entry that \<^verbatim>\<open>runClarityOnServer\<close> returns, the identifier is the one
  \<^verbatim>\<open>crypto.randomUUID\<close> hands out during the call (one draw per call) and the creation
  timestamp renders the clock as it stood when the call began; neither depends on what
  the upstream answered, and the timestamp is not the later time at which the upstream
  call returned.
\<close>

theorem C8_identifier_and_timestamp_are_fresh:
  "id' (fst (runClarityOnServer pf w p)) = uuid_source w (uuid_drawn w) \<and>
   createdAt (fst (runClarityOnServer pf w p)) = toISOString pf (clock w) \<and>
   uuid_drawn (snd (runClarityOnServer pf w p)) = Suc (uuid_drawn w) \<and>
   (GEMINI_API_KEY w = Some key \<and> key \<noteq> [] \<longrightarrow>
      clock (snd (runClarityOnServer pf w p)) =
        clock w + snd (network w (clock w) (geminiRequest key p)))"
proof (cases "GEMINI_API_KEY w = None \<or> GEMINI_API_KEY w = Some []")
  case True
  then show ?thesis by (auto simp: run_no_key fallbackEntry_def)
next
  case False
  then obtain k where k: "GEMINI_API_KEY w = Some k" "k \<noteq> []" by auto
  obtain res dt where n: "network w (clock w) (geminiRequest k p) = (res, dt)"
    by (cases "network w (clock w) (geminiRequest k p)")
  show ?thesis
    using k n
    by (cases "parseUpstream pf res")
       (auto simp: run_key [OF k n] fallbackEntry_def mergedEntry_def)
qed

theorem C8_identifier_and_timestamp_are_fresh_witness:
  "opt_prop (upstreamParsed demoPlatform
       (demoWorld (Some ''k'') (Responded 200 (envelopeText ownIdText))) ''I feel stuck'') ''id'' =
     Some (JStr ''x1'') \<and>
   id' (fst (runClarityOnServer demoPlatform
       (demoWorld (Some ''k'') (Responded 200 (envelopeText ownIdText))) ''I feel stuck'')) =
     ''1b4e28ba-2fa1-4d3b-a3f5-ef19b5a7633b'' \<and>
   createdAt (fst (runClarityOnServer demoPlatform
       (demoWorld (Some ''k'') (Responded 200 (envelopeText ownIdText))) ''I feel stuck'')) =
     ''2023-11-14T22:13:20.000Z'' \<and>
   clock (snd (runClarityOnServer demoPlatform
       (demoWorld (Some ''k'') (Responded 200 (envelopeText ownIdText))) ''I feel stuck'')) =
     1700000000250"
proof -
  let ?w = "demoWorld (Some ''k'') (Responded 200 (envelopeText ownIdText))"
  have k: "GEMINI_API_KEY ?w = Some ''k''" and c: "clock ?w = 1700000000000"
    and u: "uuid_source ?w (uuid_drawn ?w) = ''1b4e28ba-2fa1-4d3b-a3f5-ef19b5a7633b''"
    and n: "network ?w (clock ?w) (geminiRequest ''k'' ''I feel stuck'') =
              (Responded 200 (envelopeText ownIdText), 250)"
    by (simp_all add: demoWorld_def demoUUIDs_def)
  have pu: "parseUpstream demoPlatform (Responded 200 (envelopeText ownIdText)) =
             Inr (coerceJson demoPlatform (Some ownIdText))"
    by (rule parseUpstream_text [where j = "envelope ownIdText"])
       (simp_all add: response_ok_def demoPlatform_def demoParse_envelope
          completionText_envelope nonempty_texts)
  have p: "opt_prop (upstreamParsed demoPlatform ?w ''I feel stuck'') ''id'' = Some (JStr ''x1'')"
    by (simp add: upstreamParsed_def k n pu coerce_demo)
  have t: "toISOString demoPlatform 1700000000000 = ''2023-11-14T22:13:20.000Z''"
    by (simp add: demoPlatform_def demoISO_def)
  from C8_identifier_and_timestamp_are_fresh [of demoPlatform ?w "''I feel stuck''" "''k''"]
  show ?thesis
    by (simp add: k c u n [unfolded c] p t)
qed

text \<open>
  C2. When the upstream completion text is parsed to an object, each of summary,
  feelings, actionPlan and reflectionPrompts of the returned entry is, independently of
  the others, the parsed value when the object has one (a value other than
  \<^verbatim>\<open>null\<close>) and the value of the Fallback Record otherwise. In particular an object
  that holds only a summary gives that summary and the three fallback lists.
\<close>

theorem C2_merge_field_by_field:
  assumes "GEMINI_API_KEY w = Some key" and "key \<noteq> []"
    and "network w (clock w) (geminiRequest key p) = (Responded st body, dt)"
    and "response_ok st" and "JSON_parse pf body = Some j"
    and "completionText j = JStr t" and "t \<noteq> []"
    and "coerceJson pf (Some t) = Some (JObj kvs)"
  shows "summary (fst (runClarityOnServer pf w p)) = fieldOr kvs ''summary'' fallback_summary \<and>
         feelings (fst (runClarityOnServer pf w p)) = fieldOr kvs ''feelings'' fallback_feelings \<and>
         actionPlan (fst (runClarityOnServer pf w p)) =
           fieldOr kvs ''actionPlan'' fallback_actionPlan \<and>
         reflectionPrompts (fst (runClarityOnServer pf w p)) =
           fieldOr kvs ''reflectionPrompts'' fallback_reflectionPrompts \<and>
         (kvs = [(''summary'', v)] \<and> v \<noteq> JNull \<longrightarrow>
            summary (fst (runClarityOnServer pf w p)) = v \<and>
            feelings (fst (runClarityOnServer pf w p)) = fallback_feelings \<and>
            actionPlan (fst (runClarityOnServer pf w p)) = fallback_actionPlan \<and>
            reflectionPrompts (fst (runClarityOnServer pf w p)) = fallback_reflectionPrompts)"
proof -
  have "parseUpstream pf (Responded st body) = Inr (Some (JObj kvs))"
    using parseUpstream_text [OF assms(4-7)] assms(8) by simp
  then have e: "fst (runClarityOnServer pf w p) =
      mergedEntry (Some (JObj kvs)) p (toISOString pf (clock w)) (uuid_source w (uuid_drawn w))"
    by (simp add: run_key [OF assms(1-3)])
  show ?thesis
    unfolding e by (simp add: mergedEntry_def nullish_fieldOr) (simp add: nullish_Some)
qed

theorem C2_merge_field_by_field_witness:
  "summary (fst (runClarityOnServer demoPlatform
       (demoWorld (Some ''k'') (Responded 200 (envelopeText onlySummaryText))) ''I feel stuck'')) =
     JStr ''Rest first.'' \<and>
   feelings (fst (runClarityOnServer demoPlatform
       (demoWorld (Some ''k'') (Responded 200 (envelopeText onlySummaryText))) ''I feel stuck'')) =
     fallback_feelings \<and>
   actionPlan (fst (runClarityOnServer demoPlatform
       (demoWorld (Some ''k'') (Responded 200 (envelopeText onlySummaryText))) ''I feel stuck'')) =
     fallback_actionPlan \<and>
   reflectionPrompts (fst (runClarityOnServer demoPlatform
       (demoWorld (Some ''k'') (Responded 200 (envelopeText onlySummaryText))) ''I feel stuck'')) =
     fallback_reflectionPrompts"
proof -
  let ?w = "demoWorld (Some ''k'') (Responded 200 (envelopeText onlySummaryText))"
  have k: "GEMINI_API_KEY ?w = Some ''k''" and ne: "''k'' \<noteq> []"
    and n: "network ?w (clock ?w) (geminiRequest ''k'' ''I feel stuck'') =
              (Responded 200 (envelopeText onlySummaryText), 250)"
    and ok: "response_ok 200"
    and b: "JSON_parse demoPlatform (envelopeText onlySummaryText) = Some (envelope onlySummaryText)"
    by (simp_all add: demoWorld_def response_ok_def demoPlatform_def demoParse_envelope)
  from C2_merge_field_by_field [OF k ne n ok b completionText_envelope nonempty_texts(2)
      coerce_demo(2), of "JStr ''Rest first.''"]
  show ?thesis by (simp add: fieldOr_def)
qed

text \<open>
  C1, as amended. For every prompt string \<^verbatim>\<open>runClarityOnServer\<close> returns a complete
  entry and never raises: on every failure path (no credential, transport failure,
  non-success upstream status, a body that is no JSON, an empty or non-string completion
  text, nothing to parse) the entry is the Fallback Record with the prompt, the
  timestamp and the identifier, and these are the only paths on which nothing was
  parsed; on the remaining path the parsed value is what \<^verbatim>\<open>coerceJson\<close> returns for the
  completion text. The prompt field equals the input exactly. Each of the four content
  fields is the value the parsed object holds under its name, taken as it is, when there
  is one other than \<^verbatim>\<open>null\<close>, and the value of the Fallback Record otherwise. The
  four fields of the Fallback Record are not empty, so a content field of the entry is
  empty exactly when the upstream supplies an empty value for it. The prompt field is
  not empty when the input is not, the identifier and the timestamp are not empty when
  the platform's are not.
\<close>

theorem C1_always_an_entry:
  "prompt (fst (runClarityOnServer pf w p)) = p \<and>
   (failurePath pf w p \<longrightarrow>
      fst (runClarityOnServer pf w p) =
        fallbackEntry p (toISOString pf (clock w)) (uuid_source w (uuid_drawn w))) \<and>
   (failurePath pf w p \<longleftrightarrow> upstreamParsed pf w p = None) \<and>
   (GEMINI_API_KEY w = Some key \<and> key \<noteq> [] \<and>
    network w (clock w) (geminiRequest key p) = (Responded st body, dt) \<and>
    response_ok st \<and> JSON_parse pf body = Some j \<and> completionText j = JStr t \<and> t \<noteq> [] \<longrightarrow>
      upstreamParsed pf w p = coerceJson pf (Some t)) \<and>
   summary (fst (runClarityOnServer pf w p)) =
     (case opt_prop (upstreamParsed pf w p) ''summary'' of
        None \<Rightarrow> fallback_summary
      | Some v \<Rightarrow> if v = JNull then fallback_summary else v) \<and>
   feelings (fst (runClarityOnServer pf w p)) =
     (case opt_prop (upstreamParsed pf w p) ''feelings'' of
        None \<Rightarrow> fallback_feelings
      | Some v \<Rightarrow> if v = JNull then fallback_feelings else v) \<and>
   actionPlan (fst (runClarityOnServer pf w p)) =
     (case opt_prop (upstreamParsed pf w p) ''actionPlan'' of
        None \<Rightarrow> fallback_actionPlan
      | Some v \<Rightarrow> if v = JNull then fallback_actionPlan else v) \<and>
   reflectionPrompts (fst (runClarityOnServer pf w p)) =
     (case opt_prop (upstreamParsed pf w p) ''reflectionPrompts'' of
        None \<Rightarrow> fallback_reflectionPrompts
      | Some v \<Rightarrow> if v = JNull then fallback_reflectionPrompts else v) \<and>
   \<not> is_empty fallback_summary \<and> \<not> is_empty fallback_feelings \<and>
   \<not> is_empty fallback_actionPlan \<and> \<not> is_empty fallback_reflectionPrompts \<and>
   is_empty (summary (fst (runClarityOnServer pf w p))) =
     (case opt_prop (upstreamParsed pf w p) ''summary'' of
        None \<Rightarrow> False | Some v \<Rightarrow> v \<noteq> JNull \<and> is_empty v) \<and>
   is_empty (feelings (fst (runClarityOnServer pf w p))) =
     (case opt_prop (upstreamParsed pf w p) ''feelings'' of
        None \<Rightarrow> False | Some v \<Rightarrow> v \<noteq> JNull \<and> is_empty v) \<and>
   is_empty (actionPlan (fst (runClarityOnServer pf w p))) =
     (case opt_prop (upstreamParsed pf w p) ''actionPlan'' of
        None \<Rightarrow> False | Some v \<Rightarrow> v \<noteq> JNull \<and> is_empty v) \<and>
   is_empty (reflectionPrompts (fst (runClarityOnServer pf w p))) =
     (case opt_prop (upstreamParsed pf w p) ''reflectionPrompts'' of
        None \<Rightarrow> False | Some v \<Rightarrow> v \<noteq> JNull \<and> is_empty v) \<and>
   (p \<noteq> [] \<longrightarrow> prompt (fst (runClarityOnServer pf w p)) \<noteq> []) \<and>
   (uuid_source w (uuid_drawn w) \<noteq> [] \<longrightarrow> id' (fst (runClarityOnServer pf w p)) \<noteq> []) \<and>
   (toISOString pf (clock w) \<noteq> [] \<longrightarrow> createdAt (fst (runClarityOnServer pf w p)) \<noteq> [])"
proof -
  have f: "failurePath pf w p \<Longrightarrow>
      fst (runClarityOnServer pf w p) =
        fallbackEntry p (toISOString pf (clock w)) (uuid_source w (uuid_drawn w))"
    by (simp add: run_entry failurePath_parsed mergedEntry_None)
  have u: "upstreamParsed pf w p = coerceJson pf (Some t)"
    if "GEMINI_API_KEY w = Some key" "key \<noteq> []"
      "network w (clock w) (geminiRequest key p) = (Responded st body, dt)"
      "response_ok st" "JSON_parse pf body = Some j" "completionText j = JStr t" "t \<noteq> []"
    using that parseUpstream_text [of st pf body j t] by (simp add: upstreamParsed_def)
  have m: "nullish x d = (case x of None \<Rightarrow> d | Some v \<Rightarrow> if v = JNull then d else v)"
    for x d
    by (cases x) (simp_all add: nullish_Some)
  have e: "is_empty (case x of None \<Rightarrow> d | Some v \<Rightarrow> if v = JNull then d else v) =
             (case x of None \<Rightarrow> False | Some v \<Rightarrow> v \<noteq> JNull \<and> is_empty v)"
    if "\<not> is_empty d" for x d
    using that by (cases x) simp_all
  have c: "summary (fst (runClarityOnServer pf w p)) =
     (case opt_prop (upstreamParsed pf w p) ''summary'' of
        None \<Rightarrow> fallback_summary
      | Some v \<Rightarrow> if v = JNull then fallback_summary else v)"
    "feelings (fst (runClarityOnServer pf w p)) =
     (case opt_prop (upstreamParsed pf w p) ''feelings'' of
        None \<Rightarrow> fallback_feelings
      | Some v \<Rightarrow> if v = JNull then fallback_feelings else v)"
    "actionPlan (fst (runClarityOnServer pf w p)) =
     (case opt_prop (upstreamParsed pf w p) ''actionPlan'' of
        None \<Rightarrow> fallback_actionPlan
      | Some v \<Rightarrow> if v = JNull then fallback_actionPlan else v)"
    "reflectionPrompts (fst (runClarityOnServer pf w p)) =
     (case opt_prop (upstreamParsed pf w p) ''reflectionPrompts'' of
        None \<Rightarrow> fallback_reflectionPrompts
      | Some v \<Rightarrow> if v = JNull then fallback_reflectionPrompts else v)"
    by (simp_all only: run_entry mergedEntry_def ClarityEntry.simps m)
  have i: "prompt (fst (runClarityOnServer pf w p)) = p"
    "id' (fst (runClarityOnServer pf w p)) = uuid_source w (uuid_drawn w)"
    "createdAt (fst (runClarityOnServer pf w p)) = toISOString pf (clock w)"
    by (simp_all add: run_entry mergedEntry_def)
  have z: "is_empty (summary (fst (runClarityOnServer pf w p))) =
     (case opt_prop (upstreamParsed pf w p) ''summary'' of
        None \<Rightarrow> False | Some v \<Rightarrow> v \<noteq> JNull \<and> is_empty v)"
    "is_empty (feelings (fst (runClarityOnServer pf w p))) =
     (case opt_prop (upstreamParsed pf w p) ''feelings'' of
        None \<Rightarrow> False | Some v \<Rightarrow> v \<noteq> JNull \<and> is_empty v)"
    "is_empty (actionPlan (fst (runClarityOnServer pf w p))) =
     (case opt_prop (upstreamParsed pf w p) ''actionPlan'' of
        None \<Rightarrow> False | Some v \<Rightarrow> v \<noteq> JNull \<and> is_empty v)"
    "is_empty (reflectionPrompts (fst (runClarityOnServer pf w p))) =
     (case opt_prop (upstreamParsed pf w p) ''reflectionPrompts'' of
        None \<Rightarrow> False | Some v \<Rightarrow> v \<noteq> JNull \<and> is_empty v)"
    unfolding c by (rule e, rule fallback_not_empty)+
  show ?thesis
    apply (intro conjI impI)
    subgoal by (rule i(1))
    subgoal by (rule f)
    subgoal by (rule failurePath_parsed)
    subgoal by (rule u) simp_all
    subgoal by (rule c(1))
    subgoal by (rule c(2))
    subgoal by (rule c(3))
    subgoal by (rule c(4))
    subgoal by (rule fallback_not_empty(1))
    subgoal by (rule fallback_not_empty(2))
    subgoal by (rule fallback_not_empty(3))
    subgoal by (rule fallback_not_empty(4))
    subgoal by (rule z(1))
    subgoal by (rule z(2))
    subgoal by (rule z(3))
    subgoal by (rule z(4))
    subgoal by (simp add: i)
    subgoal by (simp add: i)
    subgoal by (simp add: i)
    done
qed

theorem C1_always_an_entry_witness:
  "failurePath demoPlatform (demoWorld None NetworkError) ''I feel stuck'' \<and>
   fst (runClarityOnServer demoPlatform (demoWorld None NetworkError) ''I feel stuck'') =
     fallbackEntry ''I feel stuck'' ''2023-11-14T22:13:20.000Z''
       ''1b4e28ba-2fa1-4d3b-a3f5-ef19b5a7633b'' \<and>
   failurePath demoPlatform (demoWorld (Some ''k'') (Responded 503 ''busy'')) ''I feel stuck'' \<and>
   fst (runClarityOnServer demoPlatform (demoWorld (Some ''k'') (Responded 503 ''busy''))
          ''I feel stuck'') =
     fallbackEntry ''I feel stuck'' ''2023-11-14T22:13:20.000Z''
       ''1b4e28ba-2fa1-4d3b-a3f5-ef19b5a7633b'' \<and>
   summary (fst (runClarityOnServer demoPlatform
       (demoWorld (Some ''k'') (Responded 200 (envelopeText onlySummaryText))) ''I feel stuck'')) =
     JStr ''Rest first.'' \<and>
   feelings (fst (runClarityOnServer demoPlatform
       (demoWorld (Some ''k'') (Responded 200 (envelopeText onlySummaryText))) ''I feel stuck'')) =
     fallback_feelings \<and>
   is_empty (summary (fst (runClarityOnServer demoPlatform
       (demoWorld (Some ''k'') (Responded 200 (envelopeText emptySummaryText))) ''I feel stuck''))) \<and>
   \<not> is_empty (feelings (fst (runClarityOnServer demoPlatform
       (demoWorld (Some ''k'') (Responded 200 (envelopeText emptySummaryText))) ''I feel stuck'')))"
proof -
  let ?p = "''I feel stuck''"
  let ?w0 = "demoWorld None NetworkError"
  let ?w1 = "demoWorld (Some ''k'') (Responded 503 ''busy'')"
  let ?w2 = "demoWorld (Some ''k'') (Responded 200 (envelopeText onlySummaryText))"
  let ?w3 = "demoWorld (Some ''k'') (Responded 200 (envelopeText emptySummaryText))"
  have f0: "failurePath demoPlatform ?w0 ?p"
    by (simp add: failurePath_def demoWorld_def)
  have f1: "failurePath demoPlatform ?w1 ?p"
    by (simp add: failurePath_def demoWorld_def response_ok_def)
  have p2: "upstreamParsed demoPlatform ?w2 ?p = Some (JObj [(''summary'', JStr ''Rest first.'')])"
    by (simp add: demo_parsed demoParse_envelope nonempty_texts coerce_demo)
  have p3: "upstreamParsed demoPlatform ?w3 ?p = Some (JObj [(''summary'', JStr [])])"
    by (simp add: demo_parsed demoParse_envelope nonempty_texts coerce_demo)
  from C1_always_an_entry [of demoPlatform ?w0 ?p] f0
  have a0: "fst (runClarityOnServer demoPlatform ?w0 ?p) =
      fallbackEntry ?p ''2023-11-14T22:13:20.000Z'' ''1b4e28ba-2fa1-4d3b-a3f5-ef19b5a7633b''"
    by (simp add: demo_start)
  from C1_always_an_entry [of demoPlatform ?w1 ?p] f1
  have a1: "fst (runClarityOnServer demoPlatform ?w1 ?p) =
      fallbackEntry ?p ''2023-11-14T22:13:20.000Z'' ''1b4e28ba-2fa1-4d3b-a3f5-ef19b5a7633b''"
    by (simp add: demo_start)
  from C1_always_an_entry [of demoPlatform ?w2 ?p]
  have a2: "summary (fst (runClarityOnServer demoPlatform ?w2 ?p)) = JStr ''Rest first.''"
    "feelings (fst (runClarityOnServer demoPlatform ?w2 ?p)) = fallback_feelings"
    by (simp_all add: p2)
  from C1_always_an_entry [of demoPlatform ?w3 ?p]
  have a3: "is_empty (summary (fst (runClarityOnServer demoPlatform ?w3 ?p)))"
    "\<not> is_empty (feelings (fst (runClarityOnServer demoPlatform ?w3 ?p)))"
    by (simp_all add: p3)
  from f0 f1 a0 a1 a2 a3 show ?thesis by simp
qed

text \<open>
  C1 as stated has every field non-empty. The merge substitutes the fallback only for
  \<^verbatim>\<open>null\<close> and \<^verbatim>\<open>undefined\<close>: an upstream object whose summary is the empty string
  gives an entry with an empty summary.
\<close>

theorem C1_empty_summary_counterexample:
  "summary (fst (runClarityOnServer demoPlatform
       (demoWorld (Some ''k'') (Responded 200 (envelopeText emptySummaryText))) ''I feel stuck'')) =
     JStr [] \<and> is_empty (JStr [])"
  by (simp add: run_entry demo_parsed demoParse_envelope nonempty_texts coerce_demo mergedEntry_def)

text \<open>
  C9, as amended. Two successive invocations with the same prompt, the second starting
  in a world that is later than the one the first has left. The two entries carry the
  identifiers of two different draws of the platform's generator, so they have
  different identifiers provided the generator has not handed out the same identifier
  twice up to the second draw. The two timestamps render the clock as it stood when
  each invocation began, so the second is not before the first provided the clock has
  not been set back in between (which the later world says).
\<close>

theorem C9_successive_runs_differ:
  assumes "later (snd (runClarityOnServer pf w p)) w'"
    and "distinct (map (uuid_source w) [0..<Suc (uuid_drawn w')])"
  shows "id' (fst (runClarityOnServer pf w p)) \<noteq> id' (fst (runClarityOnServer pf w' p)) \<and>
         id' (fst (runClarityOnServer pf w p)) = uuid_source w (uuid_drawn w) \<and>
         id' (fst (runClarityOnServer pf w' p)) = uuid_source w (uuid_drawn w') \<and>
         uuid_drawn w < uuid_drawn w' \<and>
         createdAt (fst (runClarityOnServer pf w p)) = toISOString pf (clock w) \<and>
         createdAt (fst (runClarityOnServer pf w' p)) = toISOString pf (clock w') \<and>
         clock w \<le> clock w'"
proof -
  from assms(1) have c: "clock w \<le> clock w'" and s: "uuid_source w' = uuid_source w"
    and d: "uuid_drawn w < uuid_drawn w'"
    using run_world [where pf = pf and w = w and p = p] by (simp_all add: later_def)
  let ?l = "map (uuid_source w) [0..<Suc (uuid_drawn w')]"
  have "?l ! uuid_drawn w \<noteq> ?l ! uuid_drawn w'"
    using assms(2) d by (simp only: nth_eq_iff_index_eq length_map length_upt)
  moreover have "?l ! uuid_drawn w = uuid_source w (uuid_drawn w)"
    using d by (simp del: upt_Suc)
  moreover have "?l ! uuid_drawn w' = uuid_source w (uuid_drawn w')"
    by (simp del: upt_Suc)
  ultimately have "uuid_source w (uuid_drawn w) \<noteq> uuid_source w' (uuid_drawn w')"
    by (simp add: s)
  with c d s show ?thesis
    by (simp add: run_entry mergedEntry_def)
qed

theorem C9_successive_runs_differ_witness:
  "id' (fst (runClarityOnServer demoPlatform (demoWorld None NetworkError) ''I feel stuck'')) =
     ''1b4e28ba-2fa1-4d3b-a3f5-ef19b5a7633b'' \<and>
   id' (fst (runClarityOnServer demoPlatform
      ((snd (runClarityOnServer demoPlatform (demoWorld None NetworkError) ''I feel stuck''))
         \<lparr>clock := 1700000000250\<rparr>) ''I feel stuck'')) =
     ''6fa459ea-ee8a-4ca4-894e-db77e160355e'' \<and>
   id' (fst (runClarityOnServer demoPlatform (demoWorld None NetworkError) ''I feel stuck'')) \<noteq>
   id' (fst (runClarityOnServer demoPlatform
      ((snd (runClarityOnServer demoPlatform (demoWorld None NetworkError) ''I feel stuck''))
         \<lparr>clock := 1700000000250\<rparr>) ''I feel stuck'')) \<and>
   createdAt (fst (runClarityOnServer demoPlatform (demoWorld None NetworkError) ''I feel stuck'')) =
     ''2023-11-14T22:13:20.000Z'' \<and>
   createdAt (fst (runClarityOnServer demoPlatform
      ((snd (runClarityOnServer demoPlatform (demoWorld None NetworkError) ''I feel stuck''))
         \<lparr>clock := 1700000000250\<rparr>) ''I feel stuck'')) =
     ''2023-11-14T22:13:20.250Z''"
proof -
  let ?p = "''I feel stuck''"
  let ?w = "demoWorld None NetworkError"
  let ?w1 = "snd (runClarityOnServer demoPlatform ?w ?p)"
  let ?w' = "?w1\<lparr>clock := 1700000000250\<rparr>"
  have w1: "?w1 = ?w\<lparr>uuid_drawn := 1\<rparr>"
    by (simp add: run_no_key demoWorld_def)
  have l: "later ?w1 ?w'"
    unfolding w1 by (simp add: later_def demoWorld_def)
  have d: "distinct (map (uuid_source ?w) [0..<Suc (uuid_drawn ?w')])"
    unfolding w1 by (simp add: demoWorld_def demoUUIDs_def)
  have i: "id' (fst (runClarityOnServer demoPlatform ?w ?p)) = ''1b4e28ba-2fa1-4d3b-a3f5-ef19b5a7633b''"
    "id' (fst (runClarityOnServer demoPlatform ?w' ?p)) = ''6fa459ea-ee8a-4ca4-894e-db77e160355e''"
    unfolding w1 by (simp_all add: run_entry mergedEntry_def demoWorld_def demoUUIDs_def)
  have t: "toISOString demoPlatform (clock ?w) = ''2023-11-14T22:13:20.000Z''"
    "toISOString demoPlatform (clock ?w') = ''2023-11-14T22:13:20.250Z''"
    by (simp_all add: demoPlatform_def demoISO_def demoWorld_def)
  note r = C9_successive_runs_differ [OF l d]
  from r have n: "id' (fst (runClarityOnServer demoPlatform ?w ?p)) \<noteq>
                  id' (fst (runClarityOnServer demoPlatform ?w' ?p))"
    by (rule conjunct1)
  from r have c: "createdAt (fst (runClarityOnServer demoPlatform ?w ?p)) =
                    toISOString demoPlatform (clock ?w)"
    "createdAt (fst (runClarityOnServer demoPlatform ?w' ?p)) =
       toISOString demoPlatform (clock ?w')"
    by blast+
  from n show ?thesis
    unfolding c t by (simp add: i)
qed

text \<open>
  C9 as stated holds of any two successive invocations. The identifier is whatever
  \<^verbatim>\<open>crypto.randomUUID\<close> hands out and the timestamp is the wall clock read by
  \<^verbatim>\<open>new Date()\<close>: on a platform whose generator hands out the same identifier twice and
  whose clock is set back by 250 milliseconds between the two invocations, the two
  entries have the same identifier and the second timestamp is before the first.
\<close>

theorem C9_repeat_and_clock_set_back_counterexample:
  "id' (fst (runClarityOnServer demoPlatform
      ((demoWorld None NetworkError)\<lparr>clock := 1700000000250, uuid_source := (\<lambda>n. demoUUIDs 0)\<rparr>)
      ''I feel stuck'')) =
   id' (fst (runClarityOnServer demoPlatform
      ((snd (runClarityOnServer demoPlatform
          ((demoWorld None NetworkError)\<lparr>clock := 1700000000250, uuid_source := (\<lambda>n. demoUUIDs 0)\<rparr>)
          ''I feel stuck''))\<lparr>clock := 1700000000000\<rparr>)
      ''I feel stuck'')) \<and>
   createdAt (fst (runClarityOnServer demoPlatform
      ((demoWorld None NetworkError)\<lparr>clock := 1700000000250, uuid_source := (\<lambda>n. demoUUIDs 0)\<rparr>)
      ''I feel stuck'')) = ''2023-11-14T22:13:20.250Z'' \<and>
   createdAt (fst (runClarityOnServer demoPlatform
      ((snd (runClarityOnServer demoPlatform
          ((demoWorld None NetworkError)\<lparr>clock := 1700000000250, uuid_source := (\<lambda>n. demoUUIDs 0)\<rparr>)
          ''I feel stuck''))\<lparr>clock := 1700000000000\<rparr>)
      ''I feel stuck'')) = ''2023-11-14T22:13:20.000Z'' \<and>
   toISOString demoPlatform 1700000000250 = ''2023-11-14T22:13:20.250Z'' \<and>
   toISOString demoPlatform 1700000000000 = ''2023-11-14T22:13:20.000Z'' \<and>
   (1700000000000 :: nat) < 1700000000250"
proof -
  let ?w = "(demoWorld None NetworkError)\<lparr>clock := 1700000000250, uuid_source := (\<lambda>n. demoUUIDs 0)\<rparr>"
  have k: "GEMINI_API_KEY ?w = None \<or> GEMINI_API_KEY ?w = Some []"
    by (simp add: demoWorld_def)
  have w1: "snd (runClarityOnServer demoPlatform ?w ''I feel stuck'') = ?w\<lparr>uuid_drawn := 1\<rparr>"
    unfolding run_no_key [OF k] by (simp add: demoWorld_def)
  show ?thesis
    unfolding w1
    by (simp add: run_entry mergedEntry_def demoWorld_def demoPlatform_def demoISO_def)
qed

text \<open>
  C7. On every response of the endpoint, the pre-flight answer and the answers of
  \<^verbatim>\<open>POST\<close> with status 200, 400 and 500 alike: when the origin of the request is in the
  allow-list, that origin is echoed in Access-Control-Allow-Origin and
  Access-Control-Allow-Credentials is true; otherwise the first origin of the allow-list
  is set and there is no credentials header. The allowed methods, the allowed headers
  and the pre-flight cache duration are set in every case, and \<^verbatim>\<open>OPTIONS\<close> answers
  with status 200.
\<close>

theorem C7_cors_on_every_response:
  assumes "r = OPTIONS request \<or> r = fst (POST pf w request)"
  shows "(origin request = Some a \<and> a \<in> set allowedOrigins \<longrightarrow>
            headers r ''Access-Control-Allow-Origin'' = Some a \<and>
            headers r ''Access-Control-Allow-Credentials'' = Some ''true'') \<and>
         (origin request = None \<or> (origin request = Some a \<and> a \<notin> set allowedOrigins) \<longrightarrow>
            headers r ''Access-Control-Allow-Origin'' = Some (hd allowedOrigins) \<and>
            headers r ''Access-Control-Allow-Credentials'' = None) \<and>
         headers r ''Access-Control-Allow-Methods'' = Some ''POST, OPTIONS'' \<and>
         headers r ''Access-Control-Allow-Headers'' =
           Some ''Content-Type, Authorization, X-Requested-With'' \<and>
         headers r ''Access-Control-Max-Age'' = Some ''86400'' \<and>
         status (OPTIONS request) = 200"
proof -
  obtain r0 where r: "r = setCorsHeaders r0 (origin request)"
    and n: "headers r0 ''Access-Control-Allow-Credentials'' = None"
    using assms POST_shape [of pf w request]
    by (auto simp: OPTIONS_def fresh_no_credentials)
  have h: "hd allowedOrigins = defaultOrigin"
    by (simp add: defaultOrigin_eq allowedOrigins_def)
  show ?thesis
    unfolding r h
    by (auto simp: cors_fixed cors_allowed cors_other n OPTIONS_def emptyResponse_def)
qed


theorem C7_cors_on_every_response_witness:
  "headers (OPTIONS \<lparr>origin = Some ''http://localhost:5173'', json_body = None\<rparr>)
     ''Access-Control-Allow-Origin'' = Some ''http://localhost:5173'' \<and>
   headers (OPTIONS \<lparr>origin = Some ''http://localhost:5173'', json_body = None\<rparr>)
     ''Access-Control-Allow-Credentials'' = Some ''true'' \<and>
   headers (fst (POST demoPlatform (demoWorld None NetworkError)
       \<lparr>origin = Some ''https://example.org'', json_body = Some (JObj [])\<rparr>))
     ''Access-Control-Allow-Origin'' = Some ''http://localhost:3000'' \<and>
   headers (fst (POST demoPlatform (demoWorld None NetworkError)
       \<lparr>origin = Some ''https://example.org'', json_body = Some (JObj [])\<rparr>))
     ''Access-Control-Allow-Credentials'' = None \<and>
   headers (fst (POST demoPlatform (demoWorld None NetworkError)
       \<lparr>origin = Some ''https://example.org'', json_body = Some (JObj [])\<rparr>))
     ''Access-Control-Max-Age'' = Some ''86400'' \<and>
   status (OPTIONS \<lparr>origin = Some ''http://localhost:5173'', json_body = None\<rparr>) = 200"
proof -
  let ?o = "\<lparr>origin = Some ''http://localhost:5173'', json_body = None\<rparr>"
  let ?q = "\<lparr>origin = Some ''https://example.org'', json_body = Some (JObj [])\<rparr>"
  have a: "''http://localhost:5173'' \<in> set allowedOrigins"
    and b: "''https://example.org'' \<notin> set allowedOrigins"
    and h: "hd allowedOrigins = ''http://localhost:3000''"
    by (simp_all add: allowedOrigins_def)
  from C7_cors_on_every_response [of "OPTIONS ?o" ?o demoPlatform "demoWorld None NetworkError"
      "''http://localhost:5173''"]
    C7_cors_on_every_response [of "fst (POST demoPlatform (demoWorld None NetworkError) ?q)" ?q
      demoPlatform "demoWorld None NetworkError" "''https://example.org''"] a b h
  show ?thesis by simp
qed

text \<open>
  C5, as amended. A \<^verbatim>\<open>POST\<close> whose JSON body has no prompt field or an empty one is
  answered with status 400 and the error Prompt is required, and the world is left as it
  was: the generation routine is not invoked and no upstream call is made. A request
  whose prompt is a non-empty string is answered with status 200 and the entry that the
  generation routine returns for that prompt. A body that does not parse is answered
  with status 500 and the error Failed to generate diagnosis.
\<close>

theorem C5_post_statuses:
  "(json_body request = Some b \<and>
      (opt_prop (Some b) ''prompt'' = None \<or> opt_prop (Some b) ''prompt'' = Some (JStr [])) \<longrightarrow>
      status (fst (POST pf w request)) = 400 \<and>
      payload (fst (POST pf w request)) = ErrorBody ''Prompt is required'' \<and>
      snd (POST pf w request) = w) \<and>
   (json_body request = Some b \<and> opt_prop (Some b) ''prompt'' = Some (JStr s) \<and> s \<noteq> [] \<longrightarrow>
      status (fst (POST pf w request)) = 200 \<and>
      payload (fst (POST pf w request)) = EntryBody (fst (runClarityOnServer pf w s)) \<and>
      snd (POST pf w request) = snd (runClarityOnServer pf w s)) \<and>
   (json_body request = None \<longrightarrow>
      status (fst (POST pf w request)) = 500 \<and>
      payload (fst (POST pf w request)) = ErrorBody ''Failed to generate diagnosis'' \<and>
      snd (POST pf w request) = w)"
proof (intro conjI impI)
  assume a: "json_body request = Some b \<and>
      (opt_prop (Some b) ''prompt'' = None \<or> opt_prop (Some b) ''prompt'' = Some (JStr []))"
  then have "\<not> truthy (opt_prop (Some b) ''prompt'')" by auto
  with a have p: "POST pf w request =
    (setCorsHeaders (jsonResponse (ErrorBody ''Prompt is required'') 400) (origin request), w)"
    by (simp add: POST_falsy)
  show "status (fst (POST pf w request)) = 400"
    and "payload (fst (POST pf w request)) = ErrorBody ''Prompt is required''"
    and "snd (POST pf w request) = w"
    unfolding p by (simp_all add: jsonResponse_def)
next
  assume a: "json_body request = Some b \<and> opt_prop (Some b) ''prompt'' = Some (JStr s) \<and> s \<noteq> []"
  then have p: "POST pf w request =
    (setCorsHeaders (jsonResponse (EntryBody (fst (runClarityOnServer pf w s))) 200)
       (origin request), snd (runClarityOnServer pf w s))"
    by (simp add: POST_string)
  show "status (fst (POST pf w request)) = 200"
    and "payload (fst (POST pf w request)) = EntryBody (fst (runClarityOnServer pf w s))"
    and "snd (POST pf w request) = snd (runClarityOnServer pf w s)"
    unfolding p by (simp_all add: jsonResponse_def)
next
  assume a: "json_body request = None"
  show "status (fst (POST pf w request)) = 500"
    and "payload (fst (POST pf w request)) = ErrorBody ''Failed to generate diagnosis''"
    and "snd (POST pf w request) = w"
    unfolding POST_no_body [OF a] by (simp_all add: jsonResponse_def)
qed


theorem C5_post_statuses_witness:
  "status (fst (POST demoPlatform (demoWorld None NetworkError)
      \<lparr>origin = None, json_body = Some (JObj [])\<rparr>)) = 400 \<and>
   payload (fst (POST demoPlatform (demoWorld None NetworkError)
      \<lparr>origin = None, json_body = Some (JObj [])\<rparr>)) = ErrorBody ''Prompt is required'' \<and>
   sent (snd (POST demoPlatform (demoWorld None NetworkError)
      \<lparr>origin = None, json_body = Some (JObj [])\<rparr>)) = [] \<and>
   status (fst (POST demoPlatform (demoWorld None NetworkError)
      \<lparr>origin = None, json_body = Some (JObj [(''prompt'', JStr ''I feel stuck'')])\<rparr>)) = 200 \<and>
   payload (fst (POST demoPlatform (demoWorld None NetworkError)
      \<lparr>origin = None, json_body = Some (JObj [(''prompt'', JStr ''I feel stuck'')])\<rparr>)) =
     EntryBody (fallbackEntry ''I feel stuck'' ''2023-11-14T22:13:20.000Z''
       ''1b4e28ba-2fa1-4d3b-a3f5-ef19b5a7633b'') \<and>
   status (fst (POST demoPlatform (demoWorld None NetworkError)
      \<lparr>origin = None, json_body = None\<rparr>)) = 500 \<and>
   payload (fst (POST demoPlatform (demoWorld None NetworkError)
      \<lparr>origin = None, json_body = None\<rparr>)) = ErrorBody ''Failed to generate diagnosis''"
proof -
  let ?w = "demoWorld None NetworkError"
  have e: "fst (runClarityOnServer demoPlatform ?w ''I feel stuck'') =
      fallbackEntry ''I feel stuck'' ''2023-11-14T22:13:20.000Z''
       ''1b4e28ba-2fa1-4d3b-a3f5-ef19b5a7633b''"
  proof -
    have "upstreamParsed demoPlatform ?w ''I feel stuck'' = None"
      by (simp add: upstreamParsed_def demoWorld_def)
    then show ?thesis by (simp add: run_entry mergedEntry_None demo_start)
  qed
  have s: "sent ?w = []" by (simp add: demoWorld_def)
  from C5_post_statuses [of "\<lparr>origin = None, json_body = Some (JObj [])\<rparr>" "JObj []"
        demoPlatform ?w "[]"]
    C5_post_statuses [of "\<lparr>origin = None, json_body = Some (JObj [(''prompt'', JStr ''I feel stuck'')])\<rparr>"
        "JObj [(''prompt'', JStr ''I feel stuck'')]" demoPlatform ?w "''I feel stuck''"]
    C5_post_statuses [of "\<lparr>origin = None, json_body = None\<rparr>" "JNull" demoPlatform ?w "[]"]
    e s
  show ?thesis by simp
qed

text \<open>
  C5 as stated answers every request with a prompt present with 200. A prompt that is
  present and no string, the number 5 here, is answered with 500.
\<close>

theorem C5_numeric_prompt_counterexample:
  "opt_prop (Some (JObj [(''prompt'', JNum 5)])) ''prompt'' = Some (JNum 5) \<and>
   status (fst (POST demoPlatform (demoWorld None NetworkError)
      \<lparr>origin = None, json_body = Some (JObj [(''prompt'', JNum 5)])\<rparr>)) = 500"
  by (simp add: POST_def jsonResponse_def)

text \<open>
  C10, as amended. \<^verbatim>\<open>POST\<close> does not check that the prompt is a string: it answers
  400 exactly when the prompt field of the parsed body is falsy (absent, null, the empty
  string, 0 or false), and every truthy string is forwarded unchanged to the generation
  routine.
\<close>

theorem C10_post_checks_truthiness_only:
  assumes "json_body request = Some b"
  shows "(status (fst (POST pf w request)) = 400 \<longleftrightarrow> \<not> truthy (opt_prop (Some b) ''prompt'')) \<and>
         \<not> truthy None \<and> \<not> truthy (Some JNull) \<and> \<not> truthy (Some (JStr [])) \<and>
         \<not> truthy (Some (JNum 0)) \<and> \<not> truthy (Some (JBool False)) \<and>
         (opt_prop (Some b) ''prompt'' = Some (JStr s) \<and> s \<noteq> [] \<longrightarrow>
            POST pf w request =
              (setCorsHeaders (jsonResponse (EntryBody (fst (runClarityOnServer pf w s))) 200)
                 (origin request),
               snd (runClarityOnServer pf w s)))"
proof -
  have "status (fst (POST pf w request)) = 400" if "\<not> truthy (opt_prop (Some b) ''prompt'')"
    using POST_falsy [OF assms that] by (simp add: jsonResponse_def)
  moreover have "status (fst (POST pf w request)) \<noteq> 400" if t: "truthy (opt_prop (Some b) ''prompt'')"
  proof (cases "\<exists>s. opt_prop (Some b) ''prompt'' = Some (JStr s)")
    case True
    then obtain s where s: "opt_prop (Some b) ''prompt'' = Some (JStr s)" ..
    with t have "s \<noteq> []" by simp
    from POST_string [OF assms s this] show ?thesis by (simp add: jsonResponse_def)
  next
    case False
    then have "\<And>s. opt_prop (Some b) ''prompt'' \<noteq> Some (JStr s)" by simp
    from POST_other [OF assms t this] show ?thesis by (simp add: jsonResponse_def)
  qed
  ultimately show ?thesis
    using POST_string [OF assms] by auto
qed

theorem C10_post_checks_truthiness_only_witness:
  "status (fst (POST demoPlatform (demoWorld None NetworkError)
      \<lparr>origin = None, json_body = Some (JObj [(''prompt'', JNum 0)])\<rparr>)) = 400 \<and>
   POST demoPlatform (demoWorld None NetworkError)
      \<lparr>origin = None, json_body = Some (JObj [(''prompt'', JStr ''I feel stuck'')])\<rparr> =
     (setCorsHeaders (jsonResponse (EntryBody
        (fst (runClarityOnServer demoPlatform (demoWorld None NetworkError) ''I feel stuck''))) 200)
        None,
      snd (runClarityOnServer demoPlatform (demoWorld None NetworkError) ''I feel stuck''))"
  using
    C10_post_checks_truthiness_only [of "\<lparr>origin = None, json_body = Some (JObj [(''prompt'', JNum 0)])\<rparr>"
      "JObj [(''prompt'', JNum 0)]" demoPlatform "demoWorld None NetworkError" "[]"]
    C10_post_checks_truthiness_only [of
      "\<lparr>origin = None, json_body = Some (JObj [(''prompt'', JStr ''I feel stuck'')])\<rparr>"
      "JObj [(''prompt'', JStr ''I feel stuck'')]" demoPlatform "demoWorld None NetworkError"
      "''I feel stuck''"]
  by simp

text \<open>
  C10 as stated forwards every truthy value. A truthy value that is no string, an array
  here, is not forwarded: the answer is 500, no request was sent upstream and no
  identifier was drawn.
\<close>

theorem C10_array_prompt_counterexample:
  "truthy (opt_prop (Some (JObj [(''prompt'', JArr [JStr ''I feel stuck''])])) ''prompt'') \<and>
   status (fst (POST demoPlatform (demoWorld (Some ''k'') NetworkError)
      \<lparr>origin = None, json_body = Some (JObj [(''prompt'', JArr [JStr ''I feel stuck''])])\<rparr>)) =
     500 \<and>
   payload (fst (POST demoPlatform (demoWorld (Some ''k'') NetworkError)
      \<lparr>origin = None, json_body = Some (JObj [(''prompt'', JArr [JStr ''I feel stuck''])])\<rparr>)) =
     ErrorBody ''Failed to generate diagnosis'' \<and>
   sent (snd (POST demoPlatform (demoWorld (Some ''k'') NetworkError)
      \<lparr>origin = None, json_body = Some (JObj [(''prompt'', JArr [JStr ''I feel stuck''])])\<rparr>)) =
     [] \<and>
   uuid_drawn (snd (POST demoPlatform (demoWorld (Some ''k'') NetworkError)
      \<lparr>origin = None, json_body = Some (JObj [(''prompt'', JArr [JStr ''I feel stuck''])])\<rparr>)) =
     0"
  by (simp add: POST_def jsonResponse_def demoWorld_def)

text \<open>Helpers for the report.\<close>

lemma nullish_not_null: "d \<noteq> JNull \<Longrightarrow> nullish x d \<noteq> JNull"
  by (cases x; cases "the x") simp_all

lemma summary_not_null: "summary (fst (runClarityOnServer pf w p)) \<noteq> JNull"
  by (simp add: run_entry mergedEntry_def nullish_not_null fallback_summary_def)

lemma report_not_entry_field: "map_of (entryProps e) ''report'' = None"
  by (simp add: entryProps_def)

lemma generateReport_server:
  assumes "\<not> has_window w"
  shows "generateReport pf w p =
     (Inr (JObj (AList.update ''report'' (summary (fst (runClarityOnServer pf w p)))
        (entryProps (fst (runClarityOnServer pf w p))))),
      snd (runClarityOnServer pf w p))"
  using assms
  by (simp add: generateReport_def case_prod_unfold nullish_Some [OF summary_not_null])

lemma generateReport_browser:
  assumes "has_window w"
    and "network w (clock w) (diagnosisRequest (apiUrl w) p) = (Responded st body, dt)"
    and "response_ok st" and "JSON_parse pf body = Some (JObj kvs)"
  shows "fst (generateReport pf w p) =
     Inr (JObj (AList.update ''report'' (fieldOr kvs ''summary'' cannedReport) kvs))"
  using assms by (simp add: generateReport_def fetch_def nullish_fieldOr)

text \<open>
  C4, as amended. \<^verbatim>\<open>generateReport\<close> returns all fields of the entry it obtained and
  a report field. On the server the entry is the one \<^verbatim>\<open>runClarityOnServer\<close> returns and
  the report is its summary. In the browser the entry is the object the endpoint
  answered with, and the report is its summary, with the canned sentence in its place
  when the summary is absent or \<^verbatim>\<open>null\<close>. A summary that is falsy and not absent, the
  empty string for one, is kept as the report.
\<close>

theorem C4_report_is_summary_or_canned:
  "(\<not> has_window w \<longrightarrow>
      (\<exists>ps. generateReport pf w p = (Inr (JObj ps), snd (runClarityOnServer pf w p)) \<and>
            map_of ps ''report'' = Some (summary (fst (runClarityOnServer pf w p))) \<and>
            (\<forall>k. k \<noteq> ''report'' \<longrightarrow>
               map_of ps k = map_of (entryProps (fst (runClarityOnServer pf w p))) k))) \<and>
   (has_window w \<and>
    network w (clock w) (diagnosisRequest (apiUrl w) p) = (Responded st body, dt) \<and>
    response_ok st \<and> JSON_parse pf body = Some (JObj kvs) \<longrightarrow>
      (\<exists>ps. fst (generateReport pf w p) = Inr (JObj ps) \<and>
            map_of ps ''report'' =
              Some (case map_of kvs ''summary'' of
                      None \<Rightarrow> cannedReport
                    | Some v \<Rightarrow> if v = JNull then cannedReport else v) \<and>
            (\<forall>k. k \<noteq> ''report'' \<longrightarrow> map_of ps k = map_of kvs k)))"
proof (intro conjI impI)
  assume "\<not> has_window w"
  from generateReport_server [OF this]
  show "\<exists>ps. generateReport pf w p = (Inr (JObj ps), snd (runClarityOnServer pf w p)) \<and>
            map_of ps ''report'' = Some (summary (fst (runClarityOnServer pf w p))) \<and>
            (\<forall>k. k \<noteq> ''report'' \<longrightarrow>
               map_of ps k = map_of (entryProps (fst (runClarityOnServer pf w p))) k)"
    by (simp add: update_conv')
next
  assume a: "has_window w \<and>
    network w (clock w) (diagnosisRequest (apiUrl w) p) = (Responded st body, dt) \<and>
    response_ok st \<and> JSON_parse pf body = Some (JObj kvs)"
  then have "fst (generateReport pf w p) =
     Inr (JObj (AList.update ''report'' (fieldOr kvs ''summary'' cannedReport) kvs))"
    by (simp add: generateReport_browser)
  then show "\<exists>ps. fst (generateReport pf w p) = Inr (JObj ps) \<and>
            map_of ps ''report'' =
              Some (case map_of kvs ''summary'' of
                      None \<Rightarrow> cannedReport
                    | Some v \<Rightarrow> if v = JNull then cannedReport else v) \<and>
            (\<forall>k. k \<noteq> ''report'' \<longrightarrow> map_of ps k = map_of kvs k)"
    by (simp add: update_conv' fieldOr_def)
qed


theorem C4_report_is_summary_or_canned_witness:
  "reportOf (fst (generateReport demoPlatform (demoWorld None NetworkError) ''I feel stuck'')) =
     Some fallback_summary \<and>
   reportOf (fst (generateReport demoPlatform
       ((demoWorld None (Responded 200 ownIdText))\<lparr>has_window := True\<rparr>) ''I feel stuck'')) =
     Some (JStr ''Rest first.'') \<and>
   reportOf (fst (generateReport demoPlatform
       ((demoWorld None (Responded 200 noSummaryText))\<lparr>has_window := True\<rparr>) ''I feel stuck'')) =
     Some cannedReport"
proof -
  let ?p = "''I feel stuck''"
  let ?w0 = "demoWorld None NetworkError"
  let ?w1 = "(demoWorld None (Responded 200 ownIdText))\<lparr>has_window := True\<rparr>"
  let ?w2 = "(demoWorld None (Responded 200 noSummaryText))\<lparr>has_window := True\<rparr>"
  have s0: "\<not> has_window ?w0"
    and e0: "summary (fst (runClarityOnServer demoPlatform ?w0 ?p)) = fallback_summary"
    by (simp_all add: demoWorld_def run_entry upstreamParsed_def mergedEntry_def)
  have h1: "has_window ?w1 \<and>
      network ?w1 (clock ?w1) (diagnosisRequest (apiUrl ?w1) ?p) = (Responded 200 ownIdText, 250) \<and>
      response_ok 200 \<and>
      JSON_parse demoPlatform ownIdText =
        Some (JObj [(''id'', JStr ''x1''), (''createdAt'', JStr ''1999''),
                    (''summary'', JStr ''Rest first.'')])"
    by (simp add: demoWorld_def response_ok_def demoPlatform_def demoParse_text)
  have h2: "has_window ?w2 \<and>
      network ?w2 (clock ?w2) (diagnosisRequest (apiUrl ?w2) ?p) = (Responded 200 noSummaryText, 250) \<and>
      response_ok 200 \<and>
      JSON_parse demoPlatform noSummaryText = Some (JObj [(''id'', JStr ''x1'')])"
    by (simp add: demoWorld_def response_ok_def demoPlatform_def demoParse_text)
  from C4_report_is_summary_or_canned [of ?w0 demoPlatform ?p] s0 e0
  have r0: "reportOf (fst (generateReport demoPlatform ?w0 ?p)) = Some fallback_summary"
    by (auto simp: reportOf_def)
  from C4_report_is_summary_or_canned [of ?w1 demoPlatform ?p 200 ownIdText 250
      "[(''id'', JStr ''x1''), (''createdAt'', JStr ''1999''), (''summary'', JStr ''Rest first.'')]"] h1
  have r1: "reportOf (fst (generateReport demoPlatform ?w1 ?p)) = Some (JStr ''Rest first.'')"
    by (auto simp: reportOf_def)
  from C4_report_is_summary_or_canned [of ?w2 demoPlatform ?p 200 noSummaryText 250
      "[(''id'', JStr ''x1'')]"] h2
  have r2: "reportOf (fst (generateReport demoPlatform ?w2 ?p)) = Some cannedReport"
    by (auto simp: reportOf_def)
  from r0 r1 r2 show ?thesis by simp
qed

text \<open>
  C4 as stated puts the canned sentence in place of every falsy summary, the empty
  string included. The substitution is by \<^verbatim>\<open>??\<close>: an entry with an empty summary gives
  an empty report.
\<close>

theorem C4_empty_summary_counterexample:
  "reportOf (fst (generateReport demoPlatform
      (demoWorld (Some ''k'') (Responded 200 (envelopeText emptySummaryText))) ''I feel stuck'')) =
     Some (JStr []) \<and>
   \<not> truthy (Some (JStr [])) \<and> JStr [] \<noteq> cannedReport"
proof -
  let ?w = "demoWorld (Some ''k'') (Responded 200 (envelopeText emptySummaryText))"
  have w: "\<not> has_window ?w" by (simp add: demoWorld_def)
  have s: "summary (fst (runClarityOnServer demoPlatform ?w ''I feel stuck'')) = JStr []"
    by (simp add: run_entry demo_parsed demoParse_envelope nonempty_texts coerce_demo
          mergedEntry_def)
  show ?thesis
    by (simp add: generateReport_server [OF w] s reportOf_def update_conv' cannedReport_def)
qed

end
